theory Spec2Isabelle
  imports
    Main
    "HOL-Library.Word"
    "HOL-Library.Char_ord"
    "HOL-Library.List_Lexorder"
begin

unbundle bit_operations_syntax

section \<open>Python values, exceptions and strings\<close>

text \<open>
  The relayer is Python. Integers are unbounded (\<open>int\<close>), \<open>bytes\<close> are lists of
  8-bit words, and a \<open>str\<close> is a \<open>string\<close> whose characters are the code points
  below 256. Values whose type is only known at run time (decoded JSON, decoded ABI
  parameters) live in \<open>pyval\<close>; a \<open>dict\<close> with string keys is an association
  list read with \<open>map_of\<close>. A raised exception is the \<open>Inl\<close> side of a sum; the
  constructor is the Python exception class and the \<open>message\<close> names the raise site.
\<close>

type_synonym bytes = "8 word list"

datatype pyval =
    PNone
  | PBool bool
  | PInt int
  | PStr string
  | PBytes bytes
  | PList "pyval list"
  | PDict "(string \<times> pyval) list"

datatype message =
    RpcNotConnected
  | ChainIdMismatch int int
  | NoWhitelistedTokens
  | NoEligibleTokens
  | InputTokensEmpty
  | OutputTokensEmpty
  | ExecutorsEmpty
  | ChwmperBalanceTooLow string string int int
  | CallTargetIsZero
  | DecodeSnwapMultipleFailed
  | DecodeSnwapFailed
  | SushiFetchFailed
  | SushiNonSuccessStatus
  | SushiMissingPayload
  | InvalidIntLiteral
  | NonHexadecimalNumber
  | RpcUrlRequired
  | InvalidAddress
  | LifiFetchFailed
  | ThresholdNotPositive
  | MaxSlippageOutOfRange
  | SlippageToleranceOutOfRange
  | ApiTimeoutNotPositive
  | NotSubscriptable
  | NotIterable
  | NotConvertible
  | Raised string

datatype error =
    ConnectionError message
  | ValueError message
  | ConfigError message
  | TypeError message
  | KeyError string
  | IndexError
  | AttributeError string
  | InvalidOperation
  | Overflow
  | OverflowError

text \<open>Sequencing of computations that may raise: the first exception wins.\<close>

definition ebind :: "error + 'a \<Rightarrow> ('a \<Rightarrow> error + 'b) \<Rightarrow> error + 'b" where
  "ebind m f = (case m of Inl e \<Rightarrow> Inl e | Inr x \<Rightarrow> f x)"

fun emap :: "('a \<Rightarrow> error + 'b) \<Rightarrow> 'a list \<Rightarrow> error + 'b list" where
  "emap f [] = Inr []"
| "emap f (x # xs) =
     (case f x of
        Inl e \<Rightarrow> Inl e
      | Inr y \<Rightarrow> (case emap f xs of Inl e \<Rightarrow> Inl e | Inr ys \<Rightarrow> Inr (y # ys)))"

subsection \<open>Characters\<close>

definition char_code :: "char \<Rightarrow> nat" where
  "char_code c = of_char c"

definition is_space :: "char \<Rightarrow> bool" where
  \<comment> \<open>the characters \<open>int()\<close> strips: ASCII whitespace, NEL and NBSP\<close>
  "is_space c = (char_code c \<in> {9, 10, 11, 12, 13, 32, 133, 160})"

definition is_ascii_space :: "char \<Rightarrow> bool" where
  \<comment> \<open>the characters \<open>bytes.fromhex\<close> skips\<close>
  "is_ascii_space c = (char_code c \<in> {9, 10, 11, 12, 13, 32})"

definition digit_value :: "char \<Rightarrow> nat option" where
  \<comment> \<open>value of a digit in bases up to 36, as \<open>int()\<close> reads it\<close>
  "digit_value c =
     (let n = char_code c in
      if 48 \<le> n \<and> n \<le> 57 then Some (n - 48)
      else if 97 \<le> n \<and> n \<le> 122 then Some (n - 87)
      else if 65 \<le> n \<and> n \<le> 90 then Some (n - 55)
      else None)"

definition lower_char :: "char \<Rightarrow> char" where
  \<comment> \<open>\<open>str.lower\<close> on one character below 256\<close>
  "lower_char c =
     (let n = char_code c in
      if (65 \<le> n \<and> n \<le> 90) \<or> (192 \<le> n \<and> n \<le> 222 \<and> n \<noteq> 215)
      then char_of (n + 32) else c)"

definition lower :: "string \<Rightarrow> string" where
  "lower s = map lower_char s"

definition startswith :: "string \<Rightarrow> string \<Rightarrow> bool" where
  "startswith s p = (take (length p) s = p)"


subsection \<open>Built-ins on run-time values\<close>

definition truthy :: "pyval \<Rightarrow> bool" where
  \<comment> \<open>Python truth value, as tested by \<open>if not x\<close>\<close>
  "truthy v =
     (case v of
        PNone \<Rightarrow> False
      | PBool b \<Rightarrow> b
      | PInt n \<Rightarrow> n \<noteq> 0
      | PStr s \<Rightarrow> s \<noteq> []
      | PBytes b \<Rightarrow> b \<noteq> []
      | PList xs \<Rightarrow> xs \<noteq> []
      | PDict kvs \<Rightarrow> kvs \<noteq> [])"

definition getitem :: "pyval \<Rightarrow> string \<Rightarrow> error + pyval" where
  \<comment> \<open>\<open>obj[key]\<close> with a string key\<close>
  "getitem obj k =
     (case obj of
        PDict kvs \<Rightarrow> (case map_of kvs k of None \<Rightarrow> Inl (KeyError k) | Some v \<Rightarrow> Inr v)
      | _ \<Rightarrow> Inl (TypeError NotSubscriptable))"




subsection \<open>\<open>int(text, base)\<close>\<close>

fun digits_value :: "nat \<Rightarrow> nat \<Rightarrow> bool \<Rightarrow> string \<Rightarrow> nat option" where
  "digits_value base acc prev_underscore [] = (if prev_underscore then None else Some acc)"
| "digits_value base acc prev_underscore (c # cs) =
     (if c = CHR ''_'' then
        (if prev_underscore then None else digits_value base acc True cs)
      else
        (case digit_value c of
           None \<Rightarrow> None
         | Some d \<Rightarrow> if d < base then digits_value base (acc * base + d) False cs else None))"

definition strip :: "(char \<Rightarrow> bool) \<Rightarrow> string \<Rightarrow> string" where
  "strip sp s = rev (dropWhile sp (rev (dropWhile sp s)))"

definition split_sign :: "string \<Rightarrow> bool \<times> string" where
  "split_sign s =
     (case s of
        [] \<Rightarrow> (False, [])
      | c # cs \<Rightarrow> if c = CHR ''-'' then (True, cs) else if c = CHR ''+'' then (False, cs) else (False, s))"

definition skip_prefix :: "nat \<Rightarrow> string \<Rightarrow> string" where
  \<comment> \<open>base 16 accepts \<open>0x\<close> or \<open>0X\<close>, and one underscore after it\<close>
  "skip_prefix base s =
     (if base = 16 \<and> (startswith s ''0x'' \<or> startswith s ''0X'') then
        (let r = drop 2 s in if startswith r ''_'' then drop 1 r else r)
      else s)"

definition int_of_text :: "(char \<Rightarrow> bool) \<Rightarrow> nat \<Rightarrow> string \<Rightarrow> error + int" where
  "int_of_text sp base s =
     (let (negative, body) = split_sign (strip sp s);
          ds = skip_prefix base body
      in if ds = [] \<or> startswith ds ''_'' then Inl (ValueError InvalidIntLiteral)
         else (case digits_value base 0 False ds of
                 None \<Rightarrow> Inl (ValueError InvalidIntLiteral)
               | Some n \<Rightarrow> Inr (if negative then - int n else int n)))"

definition text_of_bytes :: "bytes \<Rightarrow> string" where
  "text_of_bytes b = map (\<lambda>w. char_of (unat w)) b"

definition py_int :: "pyval \<Rightarrow> error + int" where
  \<comment> \<open>\<open>int(x)\<close>\<close>
  "py_int v =
     (case v of
        PInt n \<Rightarrow> Inr n
      | PBool b \<Rightarrow> Inr (if b then 1 else 0)
      | PStr s \<Rightarrow> int_of_text is_space 10 s
      | PBytes b \<Rightarrow> int_of_text is_ascii_space 10 (text_of_bytes b)
      | _ \<Rightarrow> Inl (TypeError NotConvertible))"

definition py_int16 :: "pyval \<Rightarrow> error + int" where
  \<comment> \<open>\<open>int(x, 16)\<close>: with an explicit base only text is accepted\<close>
  "py_int16 v =
     (case v of
        PStr s \<Rightarrow> int_of_text is_space 16 s
      | PBytes b \<Rightarrow> int_of_text is_ascii_space 16 (text_of_bytes b)
      | _ \<Rightarrow> Inl (TypeError NotConvertible))"

subsection \<open>\<open>bytes.fromhex\<close>, \<open>bytes.hex\<close> and \<open>utils.hex_to_bytes\<close>\<close>

definition hex_value :: "char \<Rightarrow> nat option" where
  "hex_value c = (case digit_value c of None \<Rightarrow> None | Some d \<Rightarrow> if d < 16 then Some d else None)"

fun fromhex :: "string \<Rightarrow> error + bytes" where
  "fromhex [] = Inr []"
| "fromhex [c] = (if is_ascii_space c then Inr [] else Inl (ValueError NonHexadecimalNumber))"
| "fromhex (c # d # cs) =
     (if is_ascii_space c then fromhex (d # cs)
      else (case (hex_value c, hex_value d) of
              (Some h, Some l) \<Rightarrow>
                (case fromhex cs of Inl e \<Rightarrow> Inl e | Inr bs \<Rightarrow> Inr (word_of_nat (16 * h + l) # bs))
            | _ \<Rightarrow> Inl (ValueError NonHexadecimalNumber)))"

definition hex_char :: "nat \<Rightarrow> char" where
  "hex_char n = ''0123456789abcdef'' ! n"

definition bytes_hex :: "bytes \<Rightarrow> string" where
  "bytes_hex b = concat (map (\<lambda>w. [hex_char (unat w div 16), hex_char (unat w mod 16)]) b)"

definition hex_to_bytes :: "pyval \<Rightarrow> error + bytes" where
  \<comment> \<open>utils.py: \<open>data[2:] if data.startswith("0x") else data\<close>, then \<open>bytes.fromhex\<close>\<close>
  "hex_to_bytes data =
     (case data of
        PStr s \<Rightarrow> fromhex (if startswith s ''0x'' then drop 2 s else s)
      | PBytes b \<Rightarrow> Inl (TypeError NotConvertible)
      | _ \<Rightarrow> Inl (AttributeError ''startswith''))"

section \<open>Decimal arithmetic under the default context\<close>

text \<open>
  \<open>decimal.Decimal\<close> is sign, coefficient and exponent: the number
  \<open>(-1)^sign * coefficient * 10^exponent\<close>. The module's default context is
  \<open>prec=28, rounding=ROUND_HALF_EVEN, Emin=-999999, Emax=999999\<close> with traps for
  InvalidOperation, DivisionByZero and Overflow. An arithmetic result is rounded to the
  context (\<open>dec_fix\<close>); a constructor is exact. NaN and infinities are not represented.
\<close>

record decimal =
  dec_sign :: bool
  dec_int :: nat
  dec_exp :: int

definition prec :: nat where "prec = 28"
definition Emax :: int where "Emax = 999999"
definition Emin :: int where "Emin = - 999999"
definition Etiny :: int where "Etiny = Emin - int prec + 1"
definition Etop :: int where "Etop = Emax - int prec + 1"

fun ndigits :: "nat \<Rightarrow> nat" where
  "ndigits n = (if n < 10 then 1 else Suc (ndigits (n div 10)))"

declare ndigits.simps [simp del]

definition adjusted :: "decimal \<Rightarrow> int" where
  "adjusted d = dec_exp d + int (ndigits (dec_int d)) - 1"

definition Decimal_of_int :: "int \<Rightarrow> decimal" where
  \<comment> \<open>\<open>Decimal(n)\<close> for an integer: exact\<close>
  "Decimal_of_int n = \<lparr>dec_sign = (n < 0), dec_int = nat \<bar>n\<bar>, dec_exp = 0\<rparr>"

definition round_half_even :: "nat \<Rightarrow> nat \<Rightarrow> nat" where
  \<comment> \<open>drop the last \<open>k\<close> digits of a coefficient, ties to even\<close>
  "round_half_even c k =
     (let q = c div 10 ^ k; r = c mod 10 ^ k
      in if 2 * r > 10 ^ k \<or> (2 * r = 10 ^ k \<and> odd q) then q + 1 else q)"

definition dec_fix :: "decimal \<Rightarrow> error + decimal" where
  \<comment> \<open>round to the context: at most \<open>prec\<close> digits, exponent within range\<close>
  "dec_fix d =
     (if dec_int d = 0 then Inr (d\<lparr>dec_exp := min (max (dec_exp d) Etiny) Emax\<rparr>)
      else
        let exp_min0 = int (ndigits (dec_int d)) + dec_exp d - int prec in
        if exp_min0 > Etop then Inl Overflow
        else
          let exp_min = (if exp_min0 < Etiny then Etiny else exp_min0) in
          if dec_exp d < exp_min then
            (let coeff = round_half_even (dec_int d) (nat (exp_min - dec_exp d));
                 carry = (ndigits coeff > prec);
                 coeff' = (if carry then coeff div 10 else coeff);
                 exp' = (if carry then exp_min + 1 else exp_min)
             in if exp' > Etop then Inl Overflow
                else Inr \<lparr>dec_sign = dec_sign d, dec_int = coeff', dec_exp = exp'\<rparr>)
          else Inr d)"

definition decimal_mul :: "decimal \<Rightarrow> decimal \<Rightarrow> error + decimal" where
  \<comment> \<open>\<open>a * b\<close>\<close>
  "decimal_mul a b =
     dec_fix \<lparr>dec_sign = (dec_sign a \<noteq> dec_sign b),
          dec_int = dec_int a * dec_int b,
          dec_exp = dec_exp a + dec_exp b\<rparr>"

definition rescale_down :: "decimal \<Rightarrow> int \<Rightarrow> decimal" where
  \<comment> \<open>bring to exponent \<open>e\<close>, discarding digits (ROUND_DOWN)\<close>
  "rescale_down d e =
     (if dec_int d = 0 then \<lparr>dec_sign = dec_sign d, dec_int = 0, dec_exp = e\<rparr>
      else if dec_exp d \<ge> e then
        \<lparr>dec_sign = dec_sign d, dec_int = dec_int d * 10 ^ nat (dec_exp d - e), dec_exp = e\<rparr>
      else
        \<lparr>dec_sign = dec_sign d, dec_int = dec_int d div 10 ^ nat (e - dec_exp d), dec_exp = e\<rparr>)"

definition quantize_down :: "decimal \<Rightarrow> int \<Rightarrow> error + decimal" where
  \<comment> \<open>\<open>d.quantize(Decimal(10) ** e, rounding=ROUND_DOWN)\<close>; \<open>Decimal("1")\<close> has exponent 0\<close>
  "quantize_down d e =
     (if \<not> (Etiny \<le> e \<and> e \<le> Emax) then Inl InvalidOperation
      else if dec_int d = 0 then dec_fix \<lparr>dec_sign = dec_sign d, dec_int = 0, dec_exp = e\<rparr>
      else if adjusted d > Emax then Inl InvalidOperation
      else if adjusted d - e + 1 > int prec then Inl InvalidOperation
      else
        let ans = rescale_down d e in
        if adjusted ans > Emax then Inl InvalidOperation
        else if ndigits (dec_int ans) > prec then Inl InvalidOperation
        else dec_fix ans)"

definition int_of_decimal :: "decimal \<Rightarrow> int" where
  \<comment> \<open>\<open>int(d)\<close>: truncation toward zero\<close>
  "int_of_decimal d =
     (let m = (if dec_exp d \<ge> 0 then int (dec_int d) * 10 ^ nat (dec_exp d)
               else int (dec_int d div 10 ^ nat (- dec_exp d)))
      in if dec_sign d then - m else m)"

definition apply_discount :: "int \<Rightarrow> decimal \<Rightarrow> error + int" where
  \<comment> \<open>utils.py: \<open>int((Decimal(value) * multiplier).quantize(Decimal("1"), rounding=ROUND_DOWN))\<close>;
      swap.py lines 100-104 spell out the same expression\<close>
  "apply_discount val multiplier =
     ebind (decimal_mul (Decimal_of_int val) multiplier) (\<lambda>product.
     ebind (quantize_down product 0) (\<lambda>quantized.
     Inr (int_of_decimal quantized)))"


section \<open>Configuration (config/loader.py)\<close>

text \<open>
  The frozen dataclasses of the loader. A field of Python type \<open>float\<close> is carried as
  the decimal numeral that \<open>str\<close> prints for it (\<open>0.98\<close> is coefficient 98, exponent
  -2; \<open>1.0\<close> is coefficient 10, exponent -1), which is exactly what
  \<open>Decimal(str(x))\<close> builds from it.
\<close>

record ChainConfig =
  chain_id :: int
  rpc_url :: "string option"

record TokenConfig =
  symbol :: string
  address :: string

record BaseContracts =
  chwmper_address :: string
  revenue_bridger_address :: string
  redsnwapper_address :: string
  lifi_diamond_address :: string
  usdc_address :: string
  whitelisted_tokens :: "TokenConfig list"

record DefaultsConfig =
  bridge_usdc_amount :: decimal
  usdc_threshold :: int
  max_slippage :: decimal
  slippage_tolerance :: decimal
  api_timeout :: int

record ApiUrlsConfig =
  sushi_swap_base :: string
  lifi_quote :: string

record RelayerConfig =
  base_chain :: ChainConfig
  ethereum_chain :: ChainConfig
  base_contracts :: BaseContracts
  ethereum_usdc_address :: string
  defaults :: DefaultsConfig
  api_urls :: ApiUrlsConfig
  mainnet_recipient :: string


definition dec_le_zero :: "decimal \<Rightarrow> bool" where
  "dec_le_zero d = (dec_sign d \<or> dec_int d = 0)"

definition dec_cmp_one :: "decimal \<Rightarrow> (int \<Rightarrow> int \<Rightarrow> bool) \<Rightarrow> bool" where
  \<comment> \<open>compare a non-negative decimal with 1 after scaling both to integers\<close>
  "dec_cmp_one d rel =
     (if dec_exp d \<ge> 0 then rel (int (dec_int d) * 10 ^ nat (dec_exp d)) 1
      else rel (int (dec_int d)) (10 ^ nat (- dec_exp d)))"

definition dec_gt_one :: "decimal \<Rightarrow> bool" where
  "dec_gt_one d = (\<not> dec_le_zero d \<and> dec_cmp_one d (\<lambda>x y. x > y))"

definition dec_ge_one :: "decimal \<Rightarrow> bool" where
  "dec_ge_one d = (\<not> dec_le_zero d \<and> dec_cmp_one d (\<lambda>x y. x \<ge> y))"

definition check_defaults :: "DefaultsConfig \<Rightarrow> error + DefaultsConfig" where
  \<comment> \<open>load_config, lines 211-218\<close>
  "check_defaults d =
     (if usdc_threshold d \<le> 0 then Inl (ConfigError ThresholdNotPositive)
      else if dec_le_zero (max_slippage d) \<or> dec_ge_one (max_slippage d)
        then Inl (ConfigError MaxSlippageOutOfRange)
      else if dec_le_zero (slippage_tolerance d) \<or> dec_gt_one (slippage_tolerance d)
        then Inl (ConfigError SlippageToleranceOutOfRange)
      else if api_timeout d \<le> 0 then Inl (ConfigError ApiTimeoutNotPositive)
      else Inr d)"

section \<open>The chain connection (core/utils.py)\<close>

text \<open>
  A \<open>Web3\<close> object is known to the relayer through what it answers: whether it is
  connected, its chain id and its latest block number. \<open>object_id\<close> is Python's
  \<open>id(web3)\<close>, the identity of the object; \<open>endpoint\<close> is the RPC URL it was
  configured with.
\<close>

record Web3 =
  object_id :: nat
  endpoint :: string
  is_connected :: bool
  eth_chain_id :: int
  eth_block_number :: int

definition ensure_web3_connected :: "Web3 \<Rightarrow> int option \<Rightarrow> error + unit" where
  "ensure_web3_connected web3 expected_chain_id =
     (if \<not> is_connected web3 then Inl (ConnectionError RpcNotConnected)
      else (case expected_chain_id of
              None \<Rightarrow> Inr ()
            | Some expected \<Rightarrow>
                if eth_chain_id web3 \<noteq> expected
                then Inl (ValueError (ChainIdMismatch expected (eth_chain_id web3)))
                else Inr ()))"

record SushiQuoteResult =
  sq_executor :: string
  sq_executor_data :: bytes
  sq_chain_id :: int
  sq_recipient :: string
  sq_amount_in :: int
  sq_assumed_amount_out :: int
  sq_block_number :: int

section \<open>Swap parameter construction (core/swap.py)\<close>

text \<open>
  The builder reads balances through \<open>tokens.balance_of\<close> and asks for quotes through
  its \<open>quote_fn\<close> argument. Both leave the process. The model takes their answers as
  functions of the arguments the builder passes, each either an exception or a value:
  \<open>read_balance web3 token owner\<close> is what \<open>balance_of(web3, token, owner)\<close>
  returns or raises (the contract-handle cache it goes through is modelled with
  tokens.py below), and \<open>quote_fn config token_in token_out amount_in_wei sender
  recipient\<close> is the quote.
\<close>

type_synonym balance_reader = "Web3 \<Rightarrow> string \<Rightarrow> string \<Rightarrow> error + int"
type_synonym quote_function =
  "RelayerConfig \<Rightarrow> string \<Rightarrow> string \<Rightarrow> int \<Rightarrow> string \<Rightarrow> string \<Rightarrow> error + SushiQuoteResult"

record SwapTokenQuote =
  tq_symbol :: string
  tq_token_address :: string
  tq_balance :: int
  tq_assumed_usdc_out :: int
  tq_min_usdc_out :: int
  tq_executor :: string
  tq_executor_data :: bytes

type_synonym InputToken = "string \<times> int \<times> string"
type_synonym OutputToken = "string \<times> string \<times> int"
type_synonym ExecutorCall = "string \<times> int \<times> bytes"

record SwapBuildResult =
  input_tokens :: "InputToken list"
  output_tokens :: "OutputToken list"
  executors :: "ExecutorCall list"
  min_total_usdc :: int
  assumed_total_usdc :: int
  token_quotes :: "SwapTokenQuote list"

definition iter_whitelisted_tokens :: "TokenConfig list \<Rightarrow> TokenConfig list" where
  \<comment> \<open>\<open>sorted(tokens, key=lambda token: token.symbol)\<close>: stable, by code point\<close>
  "iter_whitelisted_tokens tokens = sort_key symbol tokens"

text \<open>The local variables the loop of \<open>build_swap_parameters\<close> updates.\<close>

record swap_acc =
  acc_input_tokens :: "InputToken list"
  acc_executors :: "ExecutorCall list"
  acc_quotes_collected :: "SwapTokenQuote list"
  acc_total_assumed :: int
  acc_total_min :: int

definition swap_acc_init :: swap_acc where
  "swap_acc_init =
     \<lparr>acc_input_tokens = [], acc_executors = [], acc_quotes_collected = [],
      acc_total_assumed = 0, acc_total_min = 0\<rparr>"

definition swap_append :: "TokenConfig \<Rightarrow> int \<Rightarrow> SushiQuoteResult \<Rightarrow> int \<Rightarrow> swap_acc \<Rightarrow> swap_acc" where
  \<comment> \<open>lines 106-121\<close>
  "swap_append token balance sushi_quote min_out acc =
     \<lparr>acc_input_tokens = acc_input_tokens acc @ [(address token, balance, sq_executor sushi_quote)],
      acc_executors = acc_executors acc @ [(sq_executor sushi_quote, 0, sq_executor_data sushi_quote)],
      acc_quotes_collected = acc_quotes_collected acc @
        [\<lparr>tq_symbol = symbol token,
          tq_token_address = address token,
          tq_balance = balance,
          tq_assumed_usdc_out = sq_assumed_amount_out sushi_quote,
          tq_min_usdc_out = min_out,
          tq_executor = sq_executor sushi_quote,
          tq_executor_data = sq_executor_data sushi_quote\<rparr>],
      acc_total_assumed = acc_total_assumed acc + sq_assumed_amount_out sushi_quote,
      acc_total_min = acc_total_min acc + min_out\<rparr>"

fun swap_loop ::
  "balance_reader \<Rightarrow> quote_function \<Rightarrow> RelayerConfig \<Rightarrow> Web3 \<Rightarrow> string \<Rightarrow> string \<Rightarrow>
   TokenConfig list \<Rightarrow> swap_acc \<Rightarrow> error + swap_acc" where
  "swap_loop read_balance quote_fn config web3 chwomper_address contract_address [] acc = Inr acc"
| "swap_loop read_balance quote_fn config web3 chwomper_address contract_address (token # rest) acc =
     (case read_balance web3 (address token) chwomper_address of
        Inl e \<Rightarrow> Inl e
      | Inr balance \<Rightarrow>
          if balance = 0 then
            swap_loop read_balance quote_fn config web3 chwomper_address contract_address rest acc
          else
            (case quote_fn config (address token) (usdc_address (base_contracts config)) balance
                           contract_address contract_address of
               Inl exc \<Rightarrow>
                 swap_loop read_balance quote_fn config web3 chwomper_address contract_address rest acc
             | Inr sushi_quote \<Rightarrow>
                 if sq_assumed_amount_out sushi_quote < usdc_threshold (defaults config) then
                   swap_loop read_balance quote_fn config web3 chwomper_address contract_address rest acc
                 else
                   (case apply_discount (sq_assumed_amount_out sushi_quote)
                                        (slippage_tolerance (defaults config)) of
                      Inl e \<Rightarrow> Inl e
                    | Inr min_out \<Rightarrow>
                        swap_loop read_balance quote_fn config web3 chwomper_address contract_address rest
                          (swap_append token balance sushi_quote min_out acc))))"

definition build_swap_parameters ::
  "balance_reader \<Rightarrow> quote_function \<Rightarrow> RelayerConfig \<Rightarrow> Web3 \<Rightarrow> string \<Rightarrow> string \<Rightarrow>
   error + SwapBuildResult" where
  "build_swap_parameters read_balance quote_fn config web3 chwomper_address contract_address =
     (case ensure_web3_connected web3 (Some (chain_id (base_chain config))) of
        Inl e \<Rightarrow> Inl e
      | Inr _ \<Rightarrow>
          let tokens = iter_whitelisted_tokens (whitelisted_tokens (base_contracts config)) in
          if tokens = [] then Inl (ValueError NoWhitelistedTokens)
          else
            (case swap_loop read_balance quote_fn config web3 chwomper_address contract_address
                            tokens swap_acc_init of
               Inl e \<Rightarrow> Inl e
             | Inr acc \<Rightarrow>
                 if acc_input_tokens acc = [] then Inl (ValueError NoEligibleTokens)
                 else
                   Inr \<lparr>input_tokens = acc_input_tokens acc,
                        output_tokens =
                          [(usdc_address (base_contracts config), contract_address, acc_total_min acc)],
                        executors = acc_executors acc,
                        min_total_usdc = acc_total_min acc,
                        assumed_total_usdc = acc_total_assumed acc,
                        token_quotes = acc_quotes_collected acc\<rparr>))"

subsection \<open>Predicates used to state the properties of the swap builder\<close>

definition quote_matches ::
  "balance_reader \<Rightarrow> quote_function \<Rightarrow> RelayerConfig \<Rightarrow> Web3 \<Rightarrow> string \<Rightarrow> string \<Rightarrow>
   SwapTokenQuote \<Rightarrow> bool" where
  \<comment> \<open>the collected entry repeats what the two oracles answered for its token, and its
      minimum is the discounted assumed output\<close>
  "quote_matches read_balance quote_fn config web3 chwomper_address contract_address q =
     (read_balance web3 (tq_token_address q) chwomper_address = Inr (tq_balance q) \<and>
      (case quote_fn config (tq_token_address q) (usdc_address (base_contracts config))
                     (tq_balance q) contract_address contract_address of
         Inl e \<Rightarrow> False
       | Inr sq \<Rightarrow>
           sq_executor sq = tq_executor q \<and>
           sq_executor_data sq = tq_executor_data q \<and>
           sq_assumed_amount_out sq = tq_assumed_usdc_out q) \<and>
      apply_discount (tq_assumed_usdc_out q) (slippage_tolerance (defaults config)) =
        Inr (tq_min_usdc_out q))"

definition swap_acc_consistent ::
  "balance_reader \<Rightarrow> quote_function \<Rightarrow> RelayerConfig \<Rightarrow> Web3 \<Rightarrow> string \<Rightarrow> string \<Rightarrow>
   swap_acc \<Rightarrow> bool" where
  "swap_acc_consistent read_balance quote_fn config web3 chwomper_address contract_address acc =
     (acc_input_tokens acc =
        map (\<lambda>q. (tq_token_address q, tq_balance q, tq_executor q)) (acc_quotes_collected acc) \<and>
      acc_executors acc =
        map (\<lambda>q. (tq_executor q, 0, tq_executor_data q)) (acc_quotes_collected acc) \<and>
      acc_total_min acc = sum_list (map tq_min_usdc_out (acc_quotes_collected acc)) \<and>
      acc_total_assumed acc = sum_list (map tq_assumed_usdc_out (acc_quotes_collected acc)) \<and>
      list_all (quote_matches read_balance quote_fn config web3 chwomper_address contract_address)
        (acc_quotes_collected acc))"

definition token_skipped ::
  "balance_reader \<Rightarrow> quote_function \<Rightarrow> RelayerConfig \<Rightarrow> Web3 \<Rightarrow> string \<Rightarrow> string \<Rightarrow>
   TokenConfig \<Rightarrow> bool" where
  \<comment> \<open>zero balance, a quote request that raised, or an assumed output under the threshold\<close>
  "token_skipped read_balance quote_fn config web3 chwomper_address contract_address token =
     (case read_balance web3 (address token) chwomper_address of
        Inl e \<Rightarrow> False
      | Inr balance \<Rightarrow>
          balance = 0 \<or>
          (case quote_fn config (address token) (usdc_address (base_contracts config)) balance
                         contract_address contract_address of
             Inl exc \<Rightarrow> True
           | Inr sq \<Rightarrow> sq_assumed_amount_out sq < usdc_threshold (defaults config)))"

definition token_included ::
  "balance_reader \<Rightarrow> quote_function \<Rightarrow> RelayerConfig \<Rightarrow> Web3 \<Rightarrow> string \<Rightarrow> string \<Rightarrow>
   TokenConfig \<Rightarrow> bool" where
  \<comment> \<open>the token reaches the appends of lines 106-121\<close>
  "token_included read_balance quote_fn config web3 chwomper_address contract_address token =
     (case read_balance web3 (address token) chwomper_address of
        Inl e \<Rightarrow> False
      | Inr balance \<Rightarrow>
          balance \<noteq> 0 \<and>
          (case quote_fn config (address token) (usdc_address (base_contracts config)) balance
                         contract_address contract_address of
             Inl exc \<Rightarrow> False
           | Inr sq \<Rightarrow>
               \<not> sq_assumed_amount_out sq < usdc_threshold (defaults config) \<and>
               (case apply_discount (sq_assumed_amount_out sq) (slippage_tolerance (defaults config)) of
                  Inl e \<Rightarrow> False
                | Inr min_out \<Rightarrow> True)))"

section \<open>Bridge parameter construction (core/bridge.py)\<close>

text \<open>
  \<open>Web3.to_checksum_address\<close> belongs to the web3 library and hashes with Keccak-256.
  It is a parameter of every function that calls it: given a run-time value it returns the
  checksummed address or raises. \<open>jumper_fn config amount from_address to_address\<close> is
  the bridge-quote request; it returns the response dictionary or raises.
\<close>

type_synonym checksum_function = "pyval \<Rightarrow> error + string"
type_synonym jumper_function = "RelayerConfig \<Rightarrow> int \<Rightarrow> string \<Rightarrow> string \<Rightarrow> error + pyval"

record BridgeBuildResult =
  call_target :: string
  call_data :: bytes
  native_value :: int
  bridge_amount :: int
  contract_usdc_balance :: int
  bridge_min_total_usdc :: int
  jumper_payload :: pyval

definition build_bridge_call ::
  "checksum_function \<Rightarrow> balance_reader \<Rightarrow> jumper_function \<Rightarrow> RelayerConfig \<Rightarrow> Web3 \<Rightarrow>
   string \<Rightarrow> int \<Rightarrow> error + BridgeBuildResult" where
  "build_bridge_call to_checksum_address read_balance jumper_fn config web3 contract_address min_total =
     ebind (ensure_web3_connected web3 (Some (chain_id (base_chain config)))) (\<lambda>_.
     ebind (read_balance web3 (usdc_address (base_contracts config)) contract_address) (\<lambda>contract_balance.
     let amount = contract_balance + min_total in
     ebind (jumper_fn config amount contract_address (mainnet_recipient config)) (\<lambda>jumper_details.
     ebind (getitem jumper_details ''transaction'') (\<lambda>tx.
     ebind (getitem tx ''to'') (\<lambda>tx_to.
     ebind (to_checksum_address tx_to) (\<lambda>target.
     ebind (getitem tx ''data'') (\<lambda>tx_data.
     ebind (hex_to_bytes tx_data) (\<lambda>data.
     ebind (getitem tx ''value'') (\<lambda>tx_value.
     ebind (py_int16 tx_value) (\<lambda>val.
     Inr \<lparr>call_target = target,
          call_data = data,
          native_value = val,
          bridge_amount = amount,
          contract_usdc_balance = contract_balance,
          bridge_min_total_usdc = min_total,
          jumper_payload = jumper_details\<rparr>))))))))))"

definition has_minus_sign :: "pyval \<Rightarrow> bool" where
  \<comment> \<open>the text of a number starts, after leading whitespace, with \<open>-\<close>\<close>
  "has_minus_sign v =
     (case v of
        PStr s \<Rightarrow> startswith (dropWhile is_space s) ''-''
      | PBytes b \<Rightarrow> startswith (dropWhile is_ascii_space (text_of_bytes b)) ''-''
      | _ \<Rightarrow> False)"

section \<open>Validation (core/validation.py)\<close>

type_synonym allowance_reader = "Web3 \<Rightarrow> string \<Rightarrow> string \<Rightarrow> string \<Rightarrow> error + int"

record TokenValidationResult =
  tv_token_address :: string
  tv_symbol :: string
  tv_required_amount :: int
  tv_balance :: int
  tv_allowance :: int

definition has_allowance :: "TokenValidationResult \<Rightarrow> bool" where
  "has_allowance r = (tv_allowance r \<ge> tv_required_amount r)"

definition address_symbol_map :: "RelayerConfig \<Rightarrow> string \<rightharpoonup> string" where
  \<comment> \<open>a dict comprehension: of two tokens with the same key the later one stays\<close>
  "address_symbol_map config =
     map_of (rev (map (\<lambda>token. (lower (address token), symbol token))
                      (whitelisted_tokens (base_contracts config))))"

definition validate_token ::
  "checksum_function \<Rightarrow> balance_reader \<Rightarrow> allowance_reader \<Rightarrow> RelayerConfig \<Rightarrow> Web3 \<Rightarrow>
   InputToken \<Rightarrow> error + TokenValidationResult" where
  \<comment> \<open>the body of the loop of \<open>validate_swap_inputs\<close>\<close>
  "validate_token to_checksum_address read_balance read_allowance config web3 input_token =
     (case input_token of (token_address, amount_in, transfer_to) \<Rightarrow>
        ebind (read_balance web3 token_address (chwmper_address (base_contracts config))) (\<lambda>balance.
        ebind (read_allowance web3 token_address (chwmper_address (base_contracts config))
                 (revenue_bridger_address (base_contracts config))) (\<lambda>allowance.
        ebind (to_checksum_address (PStr token_address)) (\<lambda>checksum_address.
        let sym = (case address_symbol_map config (lower checksum_address) of
                     None \<Rightarrow> ''UNKNOWN'' | Some s \<Rightarrow> s) in
        if balance < amount_in then
          Inl (ValueError (ChwmperBalanceTooLow sym checksum_address balance amount_in))
        else
          Inr \<lparr>tv_token_address = checksum_address,
               tv_symbol = sym,
               tv_required_amount = amount_in,
               tv_balance = balance,
               tv_allowance = allowance\<rparr>))))"

definition validate_swap_inputs ::
  "checksum_function \<Rightarrow> balance_reader \<Rightarrow> allowance_reader \<Rightarrow> RelayerConfig \<Rightarrow> Web3 \<Rightarrow>
   InputToken list \<Rightarrow> OutputToken list \<Rightarrow> ExecutorCall list \<Rightarrow>
   error + TokenValidationResult list" where
  "validate_swap_inputs to_checksum_address read_balance read_allowance config web3
     input_toks output_toks execs =
     ebind (ensure_web3_connected web3 (Some (chain_id (base_chain config)))) (\<lambda>_.
     if input_toks = [] then Inl (ValueError InputTokensEmpty)
     else if output_toks = [] then Inl (ValueError OutputTokensEmpty)
     else if execs = [] then Inl (ValueError ExecutorsEmpty)
     else emap (validate_token to_checksum_address read_balance read_allowance config web3) input_toks)"

definition token_readable ::
  "checksum_function \<Rightarrow> balance_reader \<Rightarrow> allowance_reader \<Rightarrow> RelayerConfig \<Rightarrow> Web3 \<Rightarrow>
   InputToken \<Rightarrow> bool" where
  \<comment> \<open>the two reads and the checksum of the token's address go through\<close>
  "token_readable to_checksum_address read_balance read_allowance config web3 input_token =
     ((case read_balance web3 (fst input_token) (chwmper_address (base_contracts config)) of
         Inl e \<Rightarrow> False | Inr balance \<Rightarrow> True) \<and>
      (case read_allowance web3 (fst input_token) (chwmper_address (base_contracts config))
              (revenue_bridger_address (base_contracts config)) of
         Inl e \<Rightarrow> False | Inr allowance \<Rightarrow> True) \<and>
      (case to_checksum_address (PStr (fst input_token)) of
         Inl e \<Rightarrow> False | Inr checksum_address \<Rightarrow> True))"

definition balance_short :: "balance_reader \<Rightarrow> RelayerConfig \<Rightarrow> Web3 \<Rightarrow> InputToken \<Rightarrow> bool" where
  \<comment> \<open>the balance read for the token is below its \<open>amountIn\<close>\<close>
  "balance_short read_balance config web3 input_token =
     (case read_balance web3 (fst input_token) (chwmper_address (base_contracts config)) of
        Inl e \<Rightarrow> False
      | Inr balance \<Rightarrow> balance < fst (snd input_token))"

definition allowance_short :: "allowance_reader \<Rightarrow> RelayerConfig \<Rightarrow> Web3 \<Rightarrow> InputToken \<Rightarrow> bool" where
  \<comment> \<open>the allowance read for the token is below its \<open>amountIn\<close>\<close>
  "allowance_short read_allowance config web3 input_token =
     (case read_allowance web3 (fst input_token) (chwmper_address (base_contracts config))
             (revenue_bridger_address (base_contracts config)) of
        Inl e \<Rightarrow> False
      | Inr allowance \<Rightarrow> allowance < fst (snd input_token))"

definition is_balance_error :: "error \<Rightarrow> bool" where
  "is_balance_error e =
     (case e of
        ValueError m \<Rightarrow> (case m of ChwmperBalanceTooLow s a b r \<Rightarrow> b < r | _ \<Rightarrow> False)
      | _ \<Rightarrow> False)"

record BridgeValidationResult =
  bv_call_target :: string
  bv_native_balance :: int
  bv_required_native :: int
  bv_has_sufficient_native :: bool

definition zero_address :: string where
  "zero_address = ''0x0000000000000000000000000000000000000000''"

definition true_divide_overflows :: "int \<Rightarrow> bool" where
  \<comment> \<open>\<open>x / 10**18\<close> raises OverflowError: true division of integers rounds the exact
      quotient to the nearest float, and from \<open>2^1024 - 2^970\<close> on that is beyond the
      largest one\<close>
  "true_divide_overflows x = (\<bar>x\<bar> \<ge> (2 ^ 1024 - 2 ^ 970) * 10 ^ 18)"

definition validate_bridge_call ::
  "checksum_function \<Rightarrow> RelayerConfig \<Rightarrow> string \<Rightarrow> int \<Rightarrow> int \<Rightarrow> error + BridgeValidationResult" where
  \<comment> \<open>The comparison with the expected LiFiDiamond address only logs a warning. The
      low-balance warning of lines 122-127 is passed \<open>native_balance / 10**18\<close> and
      \<open>required_native / 10**18\<close>, which are computed before the call.\<close>
  "validate_bridge_call to_checksum_address config target native_bal native_val =
     ebind (to_checksum_address (PStr target)) (\<lambda>checksummed.
     if checksummed = zero_address then Inl (ValueError CallTargetIsZero)
     else
       let gas_buffer = 1000000 * 10 ^ 9;
           required = native_val + gas_buffer;
           has_balance = (native_bal \<ge> required)
       in if \<not> has_balance \<and> (true_divide_overflows native_bal \<or> true_divide_overflows required)
          then Inl OverflowError
          else Inr \<lparr>bv_call_target = target,
                    bv_native_balance = native_bal,
                    bv_required_native = required,
                    bv_has_sufficient_native = has_balance\<rparr>)"

section \<open>Contract handles (core/tokens.py)\<close>

text \<open>
  A contract handle is bound to the connection object it was created from and to an
  address. \<open>_CONTRACT_CACHE\<close> is a module-level dict; it is passed in and returned. Its
  keys are pairs of \<open>id(web3)\<close> and the checksummed address. The dict is an association
  list, newest entry first, so that its keys can be listed. The call that a handle sends
  to the chain is the oracle \<open>call\<close>.
\<close>

record Contract =
  handle_web3 :: Web3
  handle_address :: string

type_synonym contract_cache = "((nat \<times> string) \<times> Contract) list"

definition get_or_create_contract ::
  "checksum_function \<Rightarrow> contract_cache \<Rightarrow> Web3 \<Rightarrow> string \<Rightarrow> error + (Contract \<times> contract_cache)" where
  "get_or_create_contract to_checksum_address cache web3 token_address =
     ebind (to_checksum_address (PStr token_address)) (\<lambda>checksum_address.
     let key = (object_id web3, checksum_address) in
     case map_of cache key of
       Some contract \<Rightarrow> Inr (contract, cache)
     | None \<Rightarrow>
         let contract = \<lparr>handle_web3 = web3, handle_address = checksum_address\<rparr>
         in Inr (contract, (key, contract) # cache))"

definition get_contract ::
  "checksum_function \<Rightarrow> contract_cache \<Rightarrow> Web3 \<Rightarrow> string \<Rightarrow> error + (Contract \<times> contract_cache)" where
  "get_contract to_checksum_address cache web3 token_address =
     ebind (ensure_web3_connected web3 None) (\<lambda>_.
     get_or_create_contract to_checksum_address cache web3 token_address)"

definition balance_of ::
  "checksum_function \<Rightarrow> (Contract \<Rightarrow> string \<Rightarrow> error + int) \<Rightarrow> contract_cache \<Rightarrow> Web3 \<Rightarrow>
   string \<Rightarrow> string \<Rightarrow> (error + int) \<times> contract_cache" where
  \<comment> \<open>the cache keeps a new handle also when the call that follows raises\<close>
  "balance_of to_checksum_address call cache web3 token_address owner =
     (case get_contract to_checksum_address cache web3 token_address of
        Inl e \<Rightarrow> (Inl e, cache)
      | Inr (contract, cache') \<Rightarrow>
          (ebind (to_checksum_address (PStr owner)) (\<lambda>owner_address. call contract owner_address),
           cache'))"

definition allowance_of ::
  "checksum_function \<Rightarrow> (Contract \<Rightarrow> string \<Rightarrow> string \<Rightarrow> error + int) \<Rightarrow> contract_cache \<Rightarrow> Web3 \<Rightarrow>
   string \<Rightarrow> string \<Rightarrow> string \<Rightarrow> (error + int) \<times> contract_cache" where
  "allowance_of to_checksum_address call cache web3 token_address owner spender =
     (case get_contract to_checksum_address cache web3 token_address of
        Inl e \<Rightarrow> (Inl e, cache)
      | Inr (contract, cache') \<Rightarrow>
          (ebind (to_checksum_address (PStr owner)) (\<lambda>owner_address.
           ebind (to_checksum_address (PStr spender)) (\<lambda>spender_address.
           call contract owner_address spender_address)),
           cache'))"

definition cache_keys_by_identity :: "contract_cache \<Rightarrow> bool" where
  \<comment> \<open>every key is the identity of the connection its handle is bound to, and the
      handle's address\<close>
  "cache_keys_by_identity cache =
     list_all (\<lambda>entry. fst entry = (object_id (handle_web3 (snd entry)), handle_address (snd entry)))
       cache"

section \<open>Route quotes (core/quotes.py)\<close>

text \<open>
  \<open>contract.decode_function_input\<close> is web3's ABI decoder: given an ABI and call data it
  returns the name of the matching function and the dictionary of its decoded arguments,
  or raises. It is the parameter \<open>decode_function_input\<close>. The ABI of the
  multi-execution shape is read from \<open>snwaggerabi.json\<close>; \<open>snwagger_abi\<close> is the
  outcome of loading it. The ABI of the single-execution shape is written in the source.
\<close>

type_synonym abi_decoder = "pyval \<Rightarrow> bytes \<Rightarrow> error + (string \<times> pyval)"

definition abi_input :: "string \<Rightarrow> string \<Rightarrow> string \<Rightarrow> pyval" where
  "abi_input internal_type name ty =
     PDict [(''internalType'', PStr internal_type), (''name'', PStr name), (''type'', PStr ty)]"

definition snwap_abi :: pyval where
  "snwap_abi =
     PList [PDict
       [(''inputs'', PList
          [abi_input ''contract IERC20'' ''tokenIn'' ''address'',
           abi_input ''uint256'' ''amountIn'' ''uint256'',
           abi_input ''address'' ''recipient'' ''address'',
           abi_input ''contract IERC20'' ''tokenOut'' ''address'',
           abi_input ''uint256'' ''amountOutMin'' ''uint256'',
           abi_input ''address'' ''executor'' ''address'',
           abi_input ''bytes'' ''executorData'' ''bytes'']),
        (''name'', PStr ''snwap''),
        (''outputs'', PList [abi_input ''uint256'' ''amountOut'' ''uint256'']),
        (''stateMutability'', PStr ''payable''),
        (''type'', PStr ''function'')]]"



record Snwap =
  sn_function :: string
  sn_executor :: string
  sn_executorData :: string
  sn_amountIn :: int
  sn_amountOutMin :: int

definition hex_method :: "pyval \<Rightarrow> error + string" where
  \<comment> \<open>\<open>x.hex()\<close>: of the values here only \<open>bytes\<close> has the method\<close>
  "hex_method v = (case v of PBytes b \<Rightarrow> Inr (bytes_hex b) | _ \<Rightarrow> Inl (AttributeError ''hex''))"



definition reraise :: "message \<Rightarrow> error + 'a \<Rightarrow> error + 'a" where
  \<comment> \<open>\<open>except Exception as exc: raise ValueError(...) from exc\<close>\<close>
  "reraise m r = (case r of Inl exc \<Rightarrow> Inl (ValueError m) | Inr x \<Rightarrow> Inr x)"


definition decode_snwap :: "checksum_function \<Rightarrow> abi_decoder \<Rightarrow> pyval \<Rightarrow> error + Snwap" where
  "decode_snwap to_checksum_address decode_function_input raw_data =
     reraise DecodeSnwapFailed
       (ebind (hex_to_bytes raw_data) (\<lambda>call_data.
        ebind (decode_function_input snwap_abi call_data) (\<lambda>decoded.
        ebind (getitem (snd decoded) ''executor'') (\<lambda>ex.
        ebind (to_checksum_address ex) (\<lambda>addr.
        ebind (getitem (snd decoded) ''executorData'') (\<lambda>ed.
        ebind (if truthy ed then hex_method ed else Inr ''0x'') (\<lambda>hex.
        ebind (getitem (snd decoded) ''amountIn'') (\<lambda>ai.
        ebind (py_int ai) (\<lambda>amount_in.
        ebind (getitem (snd decoded) ''amountOutMin'') (\<lambda>ao.
        ebind (py_int ao) (\<lambda>amount_out_min.
        Inr \<lparr>sn_function = fst decoded, sn_executor = addr, sn_executorData = hex,
             sn_amountIn = amount_in, sn_amountOutMin = amount_out_min\<rparr>)))))))))))"



definition decode_single_route ::
  "checksum_function \<Rightarrow> abi_decoder \<Rightarrow> pyval \<Rightarrow> error + (string \<times> string)" where
  \<comment> \<open>the \<open>except\<close> block, lines 138-142\<close>
  "decode_single_route to_checksum_address decode_function_input tx_data =
     ebind (decode_snwap to_checksum_address decode_function_input tx_data) (\<lambda>single.
     Inr (sn_executor single, sn_executorData single))"






section \<open>A concrete run\<close>

text \<open>
  One configuration and one set of oracle answers, used to evaluate the builders on
  concrete inputs: token \<open>AAA\<close> holds 1000 units quoted at 2,000,000, token \<open>BBB\<close>
  holds nothing, token \<open>CCC\<close> is quoted under the threshold of 1,000,000, and the
  tolerance is 0.98. The addresses consist of digits only, so that their checksummed
  spelling is the address itself.
\<close>

definition addr_chwmper :: string where "addr_chwmper = ''0x1000000000000000000000000000000000000001''"
definition addr_bridger :: string where "addr_bridger = ''0x2000000000000000000000000000000000000002''"
definition addr_usdc :: string where "addr_usdc = ''0x3000000000000000000000000000000000000003''"
definition addr_lifi :: string where "addr_lifi = ''0x4000000000000000000000000000000000000004''"
definition addr_executor :: string where "addr_executor = ''0x5000000000000000000000000000000000000005''"
definition addr_token_a :: string where "addr_token_a = ''0x6000000000000000000000000000000000000006''"
definition addr_token_b :: string where "addr_token_b = ''0x7000000000000000000000000000000000000007''"
definition addr_token_c :: string where "addr_token_c = ''0x8000000000000000000000000000000000000008''"

definition demo_tokens :: "TokenConfig list" where
  "demo_tokens =
     [\<lparr>symbol = ''CCC'', address = addr_token_c\<rparr>,
      \<lparr>symbol = ''AAA'', address = addr_token_a\<rparr>,
      \<lparr>symbol = ''BBB'', address = addr_token_b\<rparr>]"

definition demo_config :: "TokenConfig list \<Rightarrow> RelayerConfig" where
  "demo_config tokens =
     \<lparr>base_chain = \<lparr>chain_id = 8453, rpc_url = Some ''http://rpc''\<rparr>,
      ethereum_chain = \<lparr>chain_id = 1, rpc_url = None\<rparr>,
      base_contracts =
        \<lparr>chwmper_address = addr_chwmper,
         revenue_bridger_address = addr_bridger,
         redsnwapper_address = addr_executor,
         lifi_diamond_address = addr_lifi,
         usdc_address = addr_usdc,
         whitelisted_tokens = tokens\<rparr>,
      ethereum_usdc_address = addr_usdc,
      defaults =
        \<lparr>bridge_usdc_amount = \<lparr>dec_sign = False, dec_int = 10, dec_exp = - 1\<rparr>,
         usdc_threshold = 1000000,
         max_slippage = \<lparr>dec_sign = False, dec_int = 5, dec_exp = - 3\<rparr>,
         slippage_tolerance = \<lparr>dec_sign = False, dec_int = 98, dec_exp = - 2\<rparr>,
         api_timeout = 30\<rparr>,
      api_urls = \<lparr>sushi_swap_base = ''http://sushi'', lifi_quote = ''http://lifi''\<rparr>,
      mainnet_recipient = addr_chwmper\<rparr>"

definition demo_web3 :: Web3 where
  "demo_web3 =
     \<lparr>object_id = 1, endpoint = ''http://rpc'', is_connected = True,
      eth_chain_id = 8453, eth_block_number = 100\<rparr>"

definition demo_read_balance :: balance_reader where
  "demo_read_balance web3 token owner =
     (if token = addr_token_a then Inr 1000
      else if token = addr_token_b then Inr 0
      else if token = addr_token_c then Inr 7
      else if token = addr_usdc then Inr 500
      else Inl (ValueError (Raised ''unknown token'')))"

definition demo_quote :: "int \<Rightarrow> SushiQuoteResult" where
  "demo_quote assumed =
     \<lparr>sq_executor = addr_executor, sq_executor_data = [1, 2], sq_chain_id = 8453,
      sq_recipient = addr_bridger, sq_amount_in = 1000, sq_assumed_amount_out = assumed,
      sq_block_number = 100\<rparr>"

definition demo_quote_fn :: "int \<Rightarrow> quote_function" where
  "demo_quote_fn assumed_a config token_in token_out amount_in_wei sender recipient =
     (if token_in = addr_token_a then Inr (demo_quote assumed_a)
      else if token_in = addr_token_c then Inr (demo_quote 999999)
      else Inl (ConnectionError SushiFetchFailed))"

definition is_decimal_digit :: "char \<Rightarrow> bool" where
  "is_decimal_digit c = (48 \<le> char_code c \<and> char_code c \<le> 57)"

definition demo_checksum :: checksum_function where
  \<comment> \<open>on a 0x-prefixed address of 40 decimal digits EIP-55 changes nothing; this stand-in
      rejects every other input\<close>
  "demo_checksum v =
     (case v of
        PStr s \<Rightarrow>
          if length s = 42 \<and> startswith s ''0x'' \<and> list_all is_decimal_digit (drop 2 s)
          then Inr s else Inl (ValueError InvalidAddress)
      | _ \<Rightarrow> Inl (TypeError NotConvertible))"

definition demo_envelope :: "string \<Rightarrow> string \<Rightarrow> pyval" where
  "demo_envelope target val =
     PDict [(''transaction'',
             PDict [(''to'', PStr target), (''data'', PStr ''0xabcdef''), (''value'', PStr val)])]"

definition demo_jumper_fn :: "string \<Rightarrow> string \<Rightarrow> jumper_function" where
  "demo_jumper_fn target val config amount from_address to_address = Inr (demo_envelope target val)"

definition demo_read_allowance :: allowance_reader where
  "demo_read_allowance web3 token owner spender =
     (if token = addr_token_a then Inr 400 else Inr 0)"

definition demo_web3_twin :: Web3 where
  \<comment> \<open>a second connection object with the configuration of the first\<close>
  "demo_web3_twin = demo_web3\<lparr>object_id := 2\<rparr>"






definition huge_value_hex :: string where
  \<comment> \<open>the hexadecimal numeral of \<open>2^1100\<close>\<close>
  "huge_value_hex = ''0x1'' @ replicate 275 (CHR ''0'')"

section \<open>The discount step\<close>

lemma ndigits_pos: "0 < ndigits n"
  by (subst ndigits.simps) simp

lemma ndigits_le_iff: "0 < d \<Longrightarrow> ndigits n \<le> d \<longleftrightarrow> n < 10 ^ d"
proof (induction n arbitrary: d rule: ndigits.induct)
  case (1 n)
  show ?case
  proof (cases "n < 10")
    case True
    have "(10::nat) ^ 1 \<le> 10 ^ d" using "1.prems" by (intro power_increasing) simp_all
    with True "1.prems" show ?thesis by (subst ndigits.simps) simp
  next
    case False
    show ?thesis
    proof (cases "d = 1")
      case True
      with False ndigits_pos[of "n div 10"] show ?thesis by (subst ndigits.simps) simp
    next
      case d: False
      with "1.prems" obtain d' where d': "d = Suc d'" "0 < d'" by (cases d) auto
      from "1.IH"[OF False d'(2)] have "ndigits (n div 10) \<le> d' \<longleftrightarrow> n div 10 < 10 ^ d'" .
      also have "\<dots> \<longleftrightarrow> n < 10 ^ d" using d' by (simp add: div_less_iff_less_mult mult.commute)
      finally show ?thesis using False d' by (subst ndigits.simps) simp
    qed
  qed
qed

lemma dec_fix_within_precision:
  assumes "dec_int d < 10 ^ 28" "Etiny \<le> dec_exp d" "dec_exp d \<le> 0"
  shows "dec_fix d = Inr d"
proof (cases "dec_int d = 0")
  case True
  with assms show ?thesis by (simp add: dec_fix_def Emax_def max_def min_def)
next
  case False
  have n: "ndigits (dec_int d) \<le> 28" using assms(1) by (simp add: ndigits_le_iff)
  have "int (ndigits (dec_int d)) + dec_exp d - int prec \<le> dec_exp d"
    using n by (simp add: prec_def)
  with False assms show ?thesis
    by (simp add: dec_fix_def Let_def Etop_def Emax_def prec_def)
qed

lemma apply_discount_within_precision:
  assumes "0 \<le> a" "\<not> dec_sign m" "dec_exp m \<le> 0" "Etiny \<le> dec_exp m"
    and "nat a * dec_int m < 10 ^ 28"
  shows "apply_discount a m = Inr (int (nat a * dec_int m div 10 ^ nat (- dec_exp m)))"
proof -
  let ?p = "\<lparr>dec_sign = False, dec_int = nat a * dec_int m, dec_exp = dec_exp m\<rparr>"
  let ?q = "\<lparr>dec_sign = False, dec_int = nat a * dec_int m div 10 ^ nat (- dec_exp m), dec_exp = 0\<rparr>"
  have mul: "decimal_mul (Decimal_of_int a) m = Inr ?p"
    using assms by (simp add: decimal_mul_def Decimal_of_int_def dec_fix_within_precision)
  have qlt: "dec_int ?q < 10 ^ 28"
    using le_less_trans[OF div_le_dividend assms(5)] by simp
  have fixq: "dec_fix ?q = Inr ?q"
    using qlt by (intro dec_fix_within_precision) (simp_all add: Etiny_def Emin_def prec_def)
  have np: "ndigits (nat a * dec_int m) \<le> 28" using assms(5) by (simp add: ndigits_le_iff)
  have nq: "ndigits (dec_int ?q) \<le> 28" using qlt by (simp add: ndigits_le_iff)
  have resc: "dec_int ?p \<noteq> 0 \<Longrightarrow> rescale_down ?p 0 = ?q"
    using assms(3) by (cases "dec_exp m = 0") (simp_all add: rescale_down_def)
  have quant: "quantize_down ?p 0 = Inr ?q"
  proof (cases "nat a * dec_int m = 0")
    case True
    then have z: "nat a * dec_int m div 10 ^ nat (- dec_exp m) = 0" by (simp only: div_0)
    have "quantize_down ?p 0 = dec_fix \<lparr>dec_sign = False, dec_int = 0, dec_exp = 0\<rparr>"
      using True by (simp add: quantize_down_def Etiny_def Emin_def Emax_def prec_def)
    with fixq show ?thesis unfolding z by simp
  next
    case False
    then have r: "rescale_down ?p 0 = ?q" using resc by simp
    show ?thesis
      using False np nq assms(3) fixq
      by (simp add: quantize_down_def r Etiny_def Emin_def Emax_def prec_def adjusted_def)
  qed
  show ?thesis
    by (simp add: apply_discount_def ebind_def mul quant int_of_decimal_def)
qed

lemma apply_discount_bounds:
  assumes "0 \<le> a" "\<not> dec_sign m" "dec_exp m \<le> 0" "Etiny \<le> dec_exp m"
    and "nat a * dec_int m < 10 ^ 28" and "dec_int m \<le> 10 ^ nat (- dec_exp m)"
    and "apply_discount a m = Inr r"
  shows "0 \<le> r \<and> r \<le> a"
proof -
  let ?k = "nat (- dec_exp m)"
  have r: "r = int (nat a * dec_int m div 10 ^ ?k)"
    using apply_discount_within_precision[OF assms(1-5)] assms(7) by simp
  have "nat a * dec_int m \<le> nat a * 10 ^ ?k" using assms(6) by simp
  then have "nat a * dec_int m div 10 ^ ?k \<le> nat a"
    by (metis div_le_mono nonzero_mult_div_cancel_right power_not_zero zero_neq_numeral)
  with r assms(1) show ?thesis by simp
qed

lemma ndigits_eq: "0 < d \<Longrightarrow> 10 ^ d \<le> n \<Longrightarrow> n < 10 ^ Suc d \<Longrightarrow> ndigits n = Suc d"
  using ndigits_le_iff[of d n] ndigits_le_iff[of "Suc d" n] by simp

lemmas decimal_eval =
  apply_discount_def ebind_def decimal_mul_def Decimal_of_int_def dec_fix_def
  prec_def Etop_def Etiny_def Emax_def Emin_def round_half_even_def quantize_down_def
  adjusted_def rescale_down_def int_of_decimal_def Let_def

section \<open>Properties of the swap builder\<close>

lemma swap_append_consistent:
  assumes "swap_acc_consistent bo qf cfg w cw ca acc"
    and "bo w (address tok) cw = Inr bal"
    and "qf cfg (address tok) (usdc_address (base_contracts cfg)) bal ca ca = Inr sq"
    and "apply_discount (sq_assumed_amount_out sq) (slippage_tolerance (defaults cfg)) = Inr m"
  shows "swap_acc_consistent bo qf cfg w cw ca (swap_append tok bal sq m acc)"
  using assms by (simp add: swap_acc_consistent_def swap_append_def quote_matches_def)

lemma swap_loop_consistent:
  "swap_acc_consistent bo qf cfg w cw ca acc \<Longrightarrow>
   swap_loop bo qf cfg w cw ca tokens acc = Inr acc' \<Longrightarrow>
   swap_acc_consistent bo qf cfg w cw ca acc'"
proof (induction tokens arbitrary: acc)
  case Nil
  then show ?case by simp
next
  case (Cons tok rest)
  from Cons.prems(2) obtain bal where bal: "bo w (address tok) cw = Inr bal"
    by (auto split: sum.splits)
  show ?case
  proof (cases "token_skipped bo qf cfg w cw ca tok")
    case True
    with bal Cons.prems(2) have "swap_loop bo qf cfg w cw ca rest acc = Inr acc'"
      by (auto simp: token_skipped_def split: sum.splits if_splits)
    with Cons.IH Cons.prems(1) show ?thesis by blast
  next
    case False
    with bal obtain sq where sq: "qf cfg (address tok) (usdc_address (base_contracts cfg)) bal ca ca = Inr sq"
      and nz: "bal \<noteq> 0" and th: "\<not> sq_assumed_amount_out sq < usdc_threshold (defaults cfg)"
      by (auto simp: token_skipped_def split: sum.splits)
    from Cons.prems(2) bal sq nz th obtain m where
      m: "apply_discount (sq_assumed_amount_out sq) (slippage_tolerance (defaults cfg)) = Inr m"
      and rest: "swap_loop bo qf cfg w cw ca rest (swap_append tok bal sq m acc) = Inr acc'"
      by (auto split: sum.splits)
    from swap_append_consistent[OF Cons.prems(1) bal sq m] rest Cons.IH show ?thesis by blast
  qed
qed

lemma swap_acc_init_consistent: "swap_acc_consistent bo qf cfg w cw ca swap_acc_init"
  by (simp add: swap_acc_consistent_def swap_acc_init_def)

lemma build_swap_parameters_Inr:
  assumes "build_swap_parameters bo qf cfg w cw ca = Inr r"
  shows "\<exists>acc. swap_loop bo qf cfg w cw ca
            (iter_whitelisted_tokens (whitelisted_tokens (base_contracts cfg))) swap_acc_init = Inr acc \<and>
          acc_input_tokens acc \<noteq> [] \<and>
          r = \<lparr>input_tokens = acc_input_tokens acc,
               output_tokens = [(usdc_address (base_contracts cfg), ca, acc_total_min acc)],
               executors = acc_executors acc,
               min_total_usdc = acc_total_min acc,
               assumed_total_usdc = acc_total_assumed acc,
               token_quotes = acc_quotes_collected acc\<rparr>"
  using assms
  by (auto simp: build_swap_parameters_def Let_def split: sum.splits if_splits)

lemma build_swap_parameters_consistent:
  assumes "build_swap_parameters bo qf cfg w cw ca = Inr r"
  shows "input_tokens r = map (\<lambda>q. (tq_token_address q, tq_balance q, tq_executor q)) (token_quotes r)"
    and "executors r = map (\<lambda>q. (tq_executor q, 0, tq_executor_data q)) (token_quotes r)"
    and "min_total_usdc r = sum_list (map tq_min_usdc_out (token_quotes r))"
    and "assumed_total_usdc r = sum_list (map tq_assumed_usdc_out (token_quotes r))"
    and "list_all (quote_matches bo qf cfg w cw ca) (token_quotes r)"
    and "output_tokens r = [(usdc_address (base_contracts cfg), ca, min_total_usdc r)]"
    and "token_quotes r \<noteq> []"
proof -
  from build_swap_parameters_Inr[OF assms] obtain acc where
    loop: "swap_loop bo qf cfg w cw ca
            (iter_whitelisted_tokens (whitelisted_tokens (base_contracts cfg))) swap_acc_init = Inr acc"
    and ne: "acc_input_tokens acc \<noteq> []"
    and r: "r = \<lparr>input_tokens = acc_input_tokens acc,
               output_tokens = [(usdc_address (base_contracts cfg), ca, acc_total_min acc)],
               executors = acc_executors acc,
               min_total_usdc = acc_total_min acc,
               assumed_total_usdc = acc_total_assumed acc,
               token_quotes = acc_quotes_collected acc\<rparr>"
    by blast
  have c: "swap_acc_consistent bo qf cfg w cw ca acc"
    using swap_loop_consistent[OF swap_acc_init_consistent loop] .
  show "input_tokens r = map (\<lambda>q. (tq_token_address q, tq_balance q, tq_executor q)) (token_quotes r)"
    using c r by (simp add: swap_acc_consistent_def)
  show "executors r = map (\<lambda>q. (tq_executor q, 0, tq_executor_data q)) (token_quotes r)"
    using c r by (simp add: swap_acc_consistent_def)
  show "min_total_usdc r = sum_list (map tq_min_usdc_out (token_quotes r))"
    using c r by (simp add: swap_acc_consistent_def)
  show "assumed_total_usdc r = sum_list (map tq_assumed_usdc_out (token_quotes r))"
    using c r by (simp add: swap_acc_consistent_def)
  show "list_all (quote_matches bo qf cfg w cw ca) (token_quotes r)"
    using c r by (simp add: swap_acc_consistent_def)
  show "output_tokens r = [(usdc_address (base_contracts cfg), ca, min_total_usdc r)]"
    using r by simp
  show "token_quotes r \<noteq> []"
    using c r ne by (auto simp: swap_acc_consistent_def)
qed

lemma swap_loop_filter_skipped:
  "swap_loop bo qf cfg w cw ca tokens acc =
   swap_loop bo qf cfg w cw ca (filter (\<lambda>t. \<not> token_skipped bo qf cfg w cw ca t) tokens) acc"
proof (induction tokens arbitrary: acc)
  case Nil
  show ?case by simp
next
  case (Cons tok rest)
  show ?case
  proof (cases "token_skipped bo qf cfg w cw ca tok")
    case True
    then have "swap_loop bo qf cfg w cw ca (tok # rest) acc = swap_loop bo qf cfg w cw ca rest acc"
      by (auto simp: token_skipped_def split: sum.splits)
    with True Cons.IH show ?thesis by simp
  next
    case False
    then show ?thesis
      using Cons.IH by (auto simp: token_skipped_def split: sum.splits)
  qed
qed

lemma swap_loop_succeeds:
  "list_all (\<lambda>t. token_skipped bo qf cfg w cw ca t \<or> token_included bo qf cfg w cw ca t) tokens \<Longrightarrow>
   \<exists>acc'. swap_loop bo qf cfg w cw ca tokens acc = Inr acc' \<and>
     map fst (acc_input_tokens acc') =
       map fst (acc_input_tokens acc) @
       map address (filter (\<lambda>t. \<not> token_skipped bo qf cfg w cw ca t) tokens)"
proof (induction tokens arbitrary: acc)
  case Nil
  show ?case by simp
next
  case (Cons tok rest)
  then have rest: "list_all (\<lambda>t. token_skipped bo qf cfg w cw ca t \<or> token_included bo qf cfg w cw ca t) rest"
    by simp
  show ?case
  proof (cases "token_skipped bo qf cfg w cw ca tok")
    case True
    then have "swap_loop bo qf cfg w cw ca (tok # rest) acc = swap_loop bo qf cfg w cw ca rest acc"
      by (auto simp: token_skipped_def split: sum.splits)
    with True Cons.IH[OF rest, of acc] show ?thesis by simp
  next
    case False
    with Cons.prems have inc: "token_included bo qf cfg w cw ca tok" by simp
    then obtain bal sq m where
      bal: "bo w (address tok) cw = Inr bal" "bal \<noteq> 0"
      and sq: "qf cfg (address tok) (usdc_address (base_contracts cfg)) bal ca ca = Inr sq"
        "\<not> sq_assumed_amount_out sq < usdc_threshold (defaults cfg)"
      and m: "apply_discount (sq_assumed_amount_out sq) (slippage_tolerance (defaults cfg)) = Inr m"
      by (auto simp: token_included_def split: sum.splits)
    then have step: "swap_loop bo qf cfg w cw ca (tok # rest) acc =
        swap_loop bo qf cfg w cw ca rest (swap_append tok bal sq m acc)"
      by simp
    from Cons.IH[OF rest, of "swap_append tok bal sq m acc"] False step show ?thesis
      by (simp add: swap_append_def)
  qed
qed

lemma iter_whitelisted_tokens_Nil [simp]:
  "iter_whitelisted_tokens ws = [] \<longleftrightarrow> ws = []"
proof -
  have "length (iter_whitelisted_tokens ws) = length ws"
    by (simp add: iter_whitelisted_tokens_def)
  then show ?thesis by (metis length_0_conv)
qed

lemma filter_skipped_sorted_nonempty:
  "\<not> list_all P ws \<Longrightarrow> filter (\<lambda>t. \<not> P t) (iter_whitelisted_tokens ws) \<noteq> []"
  by (auto simp: iter_whitelisted_tokens_def list_all_iff filter_empty_conv)

lemma build_swap_parameters_succeeds:
  assumes "ensure_web3_connected w (Some (chain_id (base_chain cfg))) = Inr () \<and>
    list_all (\<lambda>t. token_skipped bo qf cfg w cw ca t \<or> token_included bo qf cfg w cw ca t)
      (whitelisted_tokens (base_contracts cfg)) \<and>
    \<not> list_all (token_skipped bo qf cfg w cw ca) (whitelisted_tokens (base_contracts cfg))"
  shows "\<exists>r. build_swap_parameters bo qf cfg w cw ca = Inr r \<and>
         map fst (input_tokens r) =
           map address (filter (\<lambda>t. \<not> token_skipped bo qf cfg w cw ca t)
                (iter_whitelisted_tokens (whitelisted_tokens (base_contracts cfg))))"
proof -
  let ?ws = "whitelisted_tokens (base_contracts cfg)"
  let ?ts = "iter_whitelisted_tokens ?ws"
  have all: "list_all (\<lambda>t. token_skipped bo qf cfg w cw ca t \<or> token_included bo qf cfg w cw ca t) ?ts"
    using assms by (simp add: iter_whitelisted_tokens_def list_all_iff)
  have ne: "filter (\<lambda>t. \<not> token_skipped bo qf cfg w cw ca t) ?ts \<noteq> []"
    using assms filter_skipped_sorted_nonempty by blast
  then have ts_ne: "?ts \<noteq> []" by (metis filter.simps(1))
  from swap_loop_succeeds[OF all, of swap_acc_init] obtain acc' where
    loop: "swap_loop bo qf cfg w cw ca ?ts swap_acc_init = Inr acc'"
    and inp: "map fst (acc_input_tokens acc') =
       map address (filter (\<lambda>t. \<not> token_skipped bo qf cfg w cw ca t) ?ts)"
    by (auto simp: swap_acc_init_def)
  from inp ne have "acc_input_tokens acc' \<noteq> []" by auto
  with loop inp ts_ne assms show ?thesis
    by (simp add: build_swap_parameters_def Let_def)
qed

lemma swap_loop_all_skipped:
  "list_all (token_skipped bo qf cfg w cw ca) tokens \<Longrightarrow>
   swap_loop bo qf cfg w cw ca tokens acc = Inr acc"
proof -
  assume "list_all (token_skipped bo qf cfg w cw ca) tokens"
  then have "filter (\<lambda>t. \<not> token_skipped bo qf cfg w cw ca t) tokens = []"
    by (simp add: list_all_iff filter_empty_conv)
  with swap_loop_filter_skipped[of bo qf cfg w cw ca tokens acc] show ?thesis by simp
qed

lemma build_swap_parameters_all_skipped:
  assumes "ensure_web3_connected w (Some (chain_id (base_chain cfg))) = Inr () \<and>
    whitelisted_tokens (base_contracts cfg) \<noteq> [] \<and>
    list_all (token_skipped bo qf cfg w cw ca) (whitelisted_tokens (base_contracts cfg))"
  shows "build_swap_parameters bo qf cfg w cw ca = Inl (ValueError NoEligibleTokens)"
proof -
  let ?ts = "iter_whitelisted_tokens (whitelisted_tokens (base_contracts cfg))"
  have "list_all (token_skipped bo qf cfg w cw ca) ?ts"
    using assms by (simp add: iter_whitelisted_tokens_def list_all_iff)
  then have "swap_loop bo qf cfg w cw ca ?ts swap_acc_init = Inr swap_acc_init"
    by (rule swap_loop_all_skipped)
  moreover have "?ts \<noteq> []"
    using assms by simp
  ultimately show ?thesis
    using assms by (simp add: build_swap_parameters_def Let_def swap_acc_init_def)
qed

section \<open>Properties of the bridge builder and of the validation\<close>

lemma ebind_Inr_iff: "ebind m f = Inr y \<longleftrightarrow> (\<exists>x. m = Inr x \<and> f x = Inr y)"
  by (cases m) (simp_all add: ebind_def)

lemma ebind_Inr [simp]: "ebind (Inr x) f = f x"
  by (simp add: ebind_def)

lemma ebind_Inl [simp]: "ebind (Inl e) f = Inl e"
  by (simp add: ebind_def)

lemma build_bridge_call_InrD:
  assumes "build_bridge_call cs rb jf config web3 ca mt = Inr r"
  shows "\<exists>tx tx_to tx_data tx_value.
           rb web3 (usdc_address (base_contracts config)) ca = Inr (contract_usdc_balance r) \<and>
           jf config (contract_usdc_balance r + mt) ca (mainnet_recipient config) = Inr (jumper_payload r) \<and>
           getitem (jumper_payload r) ''transaction'' = Inr tx \<and>
           getitem tx ''to'' = Inr tx_to \<and> cs tx_to = Inr (call_target r) \<and>
           getitem tx ''data'' = Inr tx_data \<and> hex_to_bytes tx_data = Inr (call_data r) \<and>
           getitem tx ''value'' = Inr tx_value \<and> py_int16 tx_value = Inr (native_value r) \<and>
           bridge_amount r = contract_usdc_balance r + mt \<and>
           bridge_min_total_usdc r = mt"
  using assms
  unfolding build_bridge_call_def Let_def ebind_Inr_iff
  by force

lemma build_bridge_call_InrI:
  assumes "ensure_web3_connected web3 (Some (chain_id (base_chain config))) = Inr ()"
    and "rb web3 (usdc_address (base_contracts config)) ca = Inr bal"
    and "jf config (bal + mt) ca (mainnet_recipient config) = Inr jd"
    and "getitem jd ''transaction'' = Inr tx"
    and "getitem tx ''to'' = Inr tx_to" and "cs tx_to = Inr target"
    and "getitem tx ''data'' = Inr tx_data" and "hex_to_bytes tx_data = Inr data"
    and "getitem tx ''value'' = Inr tx_value" and "py_int16 tx_value = Inr val"
  shows "build_bridge_call cs rb jf config web3 ca mt =
           Inr \<lparr>call_target = target, call_data = data, native_value = val,
                bridge_amount = bal + mt, contract_usdc_balance = bal,
                bridge_min_total_usdc = mt, jumper_payload = jd\<rparr>"
  using assms by (simp add: build_bridge_call_def Let_def)

lemma rstrip_Cons:
  assumes "rev (dropWhile P (rev t)) = c # u"
  shows "\<exists>u'. t = c # u'"
proof -
  have "rev t = takeWhile P (rev t) @ dropWhile P (rev t)" by simp
  then have "t = rev (dropWhile P (rev t)) @ rev (takeWhile P (rev t))"
    by (metis rev_append rev_rev_ident)
  with assms show ?thesis by (metis append_Cons)
qed

lemma rstrip_keeps_head:
  assumes "\<not> P c"
  shows "\<exists>u. rev (dropWhile P (rev (c # t))) = c # u"
proof (cases "\<forall>x\<in>set (rev t). P x")
  case True
  then have "dropWhile P (rev t @ [c]) = [c]"
    using assms by (simp add: dropWhile_append)
  then show ?thesis by simp
next
  case False
  then have "dropWhile P (rev t @ [c]) = dropWhile P (rev t) @ [c]"
    by (simp add: dropWhile_append)
  then have "rev (dropWhile P (rev (c # t))) = c # rev (dropWhile P (rev t))" by simp
  then show ?thesis by blast
qed

lemma int_of_text_InrD:
  assumes "int_of_text sp base s = Inr n"
  shows "\<exists>m. n = (if fst (split_sign (strip sp s)) then - int m else int m)"
proof (cases "split_sign (strip sp s)")
  case (Pair negative body)
  with assms show ?thesis
    by (auto simp: int_of_text_def Let_def split: if_splits option.splits)
qed

lemma startswith_single: "startswith xs [c] \<longleftrightarrow> (\<exists>t. xs = c # t)"
  by (cases xs) (auto simp: startswith_def)

lemma split_sign_negative: "fst (split_sign xs) \<longleftrightarrow> (\<exists>u. xs = CHR ''-'' # u)"
  by (cases xs) (auto simp: split_sign_def)

lemma int_of_text_sign:
  assumes "int_of_text sp base s = Inr n" and "\<not> sp CHR ''-''"
  shows "(\<not> startswith (dropWhile sp s) ''-'' \<longrightarrow> 0 \<le> n) \<and>
         (startswith (dropWhile sp s) ''-'' \<longrightarrow> n \<le> 0)"
proof (cases "startswith (dropWhile sp s) ''-''")
  case True
  then obtain t where t: "dropWhile sp s = CHR ''-'' # t"
    using startswith_single by blast
  from rstrip_keeps_head[of sp "CHR ''-''" t] assms(2)
  obtain u where "rev (dropWhile sp (rev (CHR ''-'' # t))) = CHR ''-'' # u" by blast
  then have "strip sp s = CHR ''-'' # u"
    by (simp only: strip_def t)
  then have "fst (split_sign (strip sp s))"
    using split_sign_negative by blast
  with int_of_text_InrD[OF assms(1)] have "n \<le> 0"
    by auto
  with True show ?thesis by blast
next
  case False
  have "\<not> fst (split_sign (strip sp s))"
  proof
    assume "fst (split_sign (strip sp s))"
    then obtain u where "strip sp s = CHR ''-'' # u"
      using split_sign_negative by blast
    then have "rev (dropWhile sp (rev (dropWhile sp s))) = CHR ''-'' # u"
      by (simp only: strip_def)
    from rstrip_Cons[OF this] obtain u' where "dropWhile sp s = CHR ''-'' # u'"
      by blast
    with False show False
      using startswith_single by blast
  qed
  with int_of_text_InrD[OF assms(1)] have "0 \<le> n"
    by auto
  with False show ?thesis by blast
qed

lemma py_int16_sign:
  assumes "py_int16 v = Inr n"
  shows "(\<not> has_minus_sign v \<longrightarrow> 0 \<le> n) \<and> (has_minus_sign v \<longrightarrow> n \<le> 0)"
proof (cases v)
  case (PStr s)
  have "\<not> is_space CHR ''-''" by (simp add: is_space_def char_code_def)
  with assms PStr int_of_text_sign[of is_space 16 s n] show ?thesis
    by (simp add: py_int16_def has_minus_sign_def)
next
  case (PBytes b)
  have "\<not> is_ascii_space CHR ''-''" by (simp add: is_ascii_space_def char_code_def)
  with assms PBytes int_of_text_sign[of is_ascii_space 16 "text_of_bytes b" n] show ?thesis
    by (simp add: py_int16_def has_minus_sign_def)
qed (use assms in \<open>simp_all add: py_int16_def\<close>)

lemma emap_Inr_length: "emap f xs = Inr ys \<Longrightarrow> length ys = length xs"
  by (induction xs arbitrary: ys) (auto split: sum.splits)

lemma emap_Inr_nth: "emap f xs = Inr ys \<Longrightarrow> i < length xs \<Longrightarrow> f (xs ! i) = Inr (ys ! i)"
proof (induction xs arbitrary: ys i)
  case Nil
  then show ?case by simp
next
  case (Cons x xs)
  then show ?case by (cases i) (auto split: sum.splits)
qed

lemma emap_all_Inr:
  "list_all (\<lambda>x. \<exists>y. f x = Inr y) xs \<Longrightarrow> \<exists>ys. emap f xs = Inr ys"
  by (induction xs) auto

lemma emap_first_error:
  assumes "\<exists>x \<in> set xs. \<exists>e. f x = Inl e"
  shows "\<exists>e. emap f xs = Inl e"
proof (cases "emap f xs")
  case (Inl e)
  then show ?thesis by blast
next
  case (Inr ys)
  from assms obtain x e where x: "x \<in> set xs" "f x = Inl e" by blast
  then obtain i where "i < length xs" "xs ! i = x" by (auto simp: in_set_conv_nth)
  with emap_Inr_nth[OF Inr, of i] x show ?thesis by simp
qed

lemma emap_error_from_element:
  "emap f xs = Inl e \<Longrightarrow> \<exists>x \<in> set xs. f x = Inl e"
  by (induction xs) (auto split: sum.splits)

lemma validate_token_Inr:
  assumes "validate_token cs rb ra config web3 it = Inr r"
  shows "tv_required_amount r = fst (snd it) \<and>
         rb web3 (fst it) (chwmper_address (base_contracts config)) = Inr (tv_balance r) \<and>
         ra web3 (fst it) (chwmper_address (base_contracts config))
            (revenue_bridger_address (base_contracts config)) = Inr (tv_allowance r) \<and>
         cs (PStr (fst it)) = Inr (tv_token_address r) \<and>
         tv_required_amount r \<le> tv_balance r"
proof -
  obtain tok amt tt where it: "it = (tok, amt, tt)" by (cases it) auto
  from assms show ?thesis
    unfolding validate_token_def it Let_def prod.case ebind_Inr_iff
    by (auto split: if_splits)
qed

lemma validate_token_short:
  assumes "balance_short rb config web3 it"
  shows "\<exists>e. validate_token cs rb ra config web3 it = Inl e"
proof -
  obtain tok amt tt where it: "it = (tok, amt, tt)" by (cases it) auto
  from assms obtain b where b: "rb web3 tok (chwmper_address (base_contracts config)) = Inr b" "b < amt"
    by (auto simp: balance_short_def it split: sum.splits)
  show ?thesis
  proof (cases "validate_token cs rb ra config web3 it")
    case (Inl e)
    then show ?thesis by blast
  next
    case (Inr r)
    from validate_token_Inr[OF Inr] b show ?thesis by (simp add: it)
  qed
qed

lemma validate_token_readable:
  assumes "token_readable cs rb ra config web3 it"
  shows "(balance_short rb config web3 it \<longrightarrow>
            (\<exists>e. validate_token cs rb ra config web3 it = Inl e \<and> is_balance_error e)) \<and>
         (\<not> balance_short rb config web3 it \<longrightarrow>
            (\<exists>r. validate_token cs rb ra config web3 it = Inr r \<and>
                 has_allowance r = (\<not> allowance_short ra config web3 it)))"
proof -
  obtain tok amt tt where it: "it = (tok, amt, tt)" by (cases it) auto
  from assms obtain b al a where
    "rb web3 tok (chwmper_address (base_contracts config)) = Inr b"
    "ra web3 tok (chwmper_address (base_contracts config))
        (revenue_bridger_address (base_contracts config)) = Inr al"
    "cs (PStr tok) = Inr a"
    by (auto simp: token_readable_def it split: sum.splits)
  then show ?thesis
    by (auto simp: validate_token_def it Let_def balance_short_def allowance_short_def
        is_balance_error_def has_allowance_def)
qed

lemma validate_swap_inputs_Inr:
  assumes "validate_swap_inputs cs rb ra config web3 its ots exs = Inr results"
  shows "emap (validate_token cs rb ra config web3) its = Inr results"
  using assms
  by (auto simp: validate_swap_inputs_def ebind_Inr_iff split: if_splits)

lemma validate_swap_inputs_connected:
  assumes "ensure_web3_connected web3 (Some (chain_id (base_chain config))) = Inr ()"
    and "its \<noteq> []" "ots \<noteq> []" "exs \<noteq> []"
  shows "validate_swap_inputs cs rb ra config web3 its ots exs =
           emap (validate_token cs rb ra config web3) its"
  using assms by (simp add: validate_swap_inputs_def)

lemma validate_swap_inputs_short:
  assumes "\<exists>it \<in> set its. balance_short rb config web3 it"
  shows "\<exists>e. validate_swap_inputs cs rb ra config web3 its ots exs = Inl e"
proof (cases "validate_swap_inputs cs rb ra config web3 its ots exs")
  case (Inl e)
  then show ?thesis by blast
next
  case (Inr results)
  from assms validate_token_short
  have "\<exists>it \<in> set its. \<exists>e. validate_token cs rb ra config web3 it = Inl e" by blast
  from emap_first_error[OF this] validate_swap_inputs_Inr[OF Inr]
  show ?thesis by simp
qed

lemma validate_swap_inputs_balance_error:
  assumes "ensure_web3_connected web3 (Some (chain_id (base_chain config))) = Inr ()"
    and "ots \<noteq> []" "exs \<noteq> []"
    and "list_all (token_readable cs rb ra config web3) its"
    and "\<exists>it \<in> set its. balance_short rb config web3 it"
  shows "\<exists>e. validate_swap_inputs cs rb ra config web3 its ots exs = Inl e \<and> is_balance_error e"
proof -
  from assms(5) have ne: "its \<noteq> []" by auto
  from validate_swap_inputs_short[OF assms(5)] obtain e where
    e: "validate_swap_inputs cs rb ra config web3 its ots exs = Inl e" by blast
  then have "emap (validate_token cs rb ra config web3) its = Inl e"
    using validate_swap_inputs_connected[OF assms(1) ne assms(2,3)] by simp
  from emap_error_from_element[OF this] obtain it where
    it: "it \<in> set its" "validate_token cs rb ra config web3 it = Inl e" by blast
  with assms(4) have "token_readable cs rb ra config web3 it" by (simp add: list_all_iff)
  from validate_token_readable[OF this] it(2) have "is_balance_error e"
    by (cases "balance_short rb config web3 it") auto
  with e show ?thesis by blast
qed

lemma validate_swap_inputs_succeeds:
  assumes "ensure_web3_connected web3 (Some (chain_id (base_chain config))) = Inr ()"
    and "its \<noteq> []" "ots \<noteq> []" "exs \<noteq> []"
    and "list_all (token_readable cs rb ra config web3) its"
    and "list_all (\<lambda>it. \<not> balance_short rb config web3 it) its"
  shows "\<exists>results. validate_swap_inputs cs rb ra config web3 its ots exs = Inr results"
proof -
  have "list_all (\<lambda>it. \<exists>r. validate_token cs rb ra config web3 it = Inr r) its"
    unfolding list_all_iff
  proof
    fix it assume "it \<in> set its"
    with assms(5,6) have "token_readable cs rb ra config web3 it"
      "\<not> balance_short rb config web3 it" by (simp_all add: list_all_iff)
    with validate_token_readable[of cs rb ra config web3 it]
    show "\<exists>r. validate_token cs rb ra config web3 it = Inr r" by blast
  qed
  from emap_all_Inr[OF this] validate_swap_inputs_connected[OF assms(1-4)]
  show ?thesis by simp
qed

lemma validate_swap_inputs_results:
  assumes "validate_swap_inputs cs rb ra config web3 its ots exs = Inr results"
  shows "length results = length its \<and>
      (\<forall>i < length its.
         tv_required_amount (results ! i) = fst (snd (its ! i)) \<and>
         rb web3 (fst (its ! i)) (chwmper_address (base_contracts config)) =
           Inr (tv_balance (results ! i)) \<and>
         ra web3 (fst (its ! i)) (chwmper_address (base_contracts config))
            (revenue_bridger_address (base_contracts config)) = Inr (tv_allowance (results ! i)) \<and>
         fst (snd (its ! i)) \<le> tv_balance (results ! i) \<and>
         has_allowance (results ! i) = (\<not> allowance_short ra config web3 (its ! i)))"
proof (intro conjI allI impI)
  note em = validate_swap_inputs_Inr[OF assms]
  show "length results = length its" using emap_Inr_length[OF em] .
  fix i assume i: "i < length its"
  note t = validate_token_Inr[OF emap_Inr_nth[OF em i]]
  show "tv_required_amount (results ! i) = fst (snd (its ! i))" using t by simp
  show "rb web3 (fst (its ! i)) (chwmper_address (base_contracts config)) =
           Inr (tv_balance (results ! i))" using t by simp
  show "ra web3 (fst (its ! i)) (chwmper_address (base_contracts config))
            (revenue_bridger_address (base_contracts config)) = Inr (tv_allowance (results ! i))"
    using t by simp
  show "fst (snd (its ! i)) \<le> tv_balance (results ! i)" using t by simp
  show "has_allowance (results ! i) = (\<not> allowance_short ra config web3 (its ! i))"
    using t by (auto simp: has_allowance_def allowance_short_def)
qed

lemma validate_bridge_call_zero_target:
  assumes "cs (PStr target) = Inr zero_address"
  shows "validate_bridge_call cs config target nb nv = Inl (ValueError CallTargetIsZero)"
  using assms by (simp add: validate_bridge_call_def)

lemma validate_bridge_call_funded:
  assumes "cs (PStr target) = Inr a" and "a \<noteq> zero_address"
    and "nv + 1000000 * 10 ^ 9 \<le> nb"
  shows "validate_bridge_call cs config target nb nv =
           Inr \<lparr>bv_call_target = target, bv_native_balance = nb,
                bv_required_native = nv + 1000000 * 10 ^ 9,
                bv_has_sufficient_native = True\<rparr>"
  using assms by (simp add: validate_bridge_call_def Let_def)

lemma validate_bridge_call_shortfall:
  assumes "cs (PStr target) = Inr a" and "a \<noteq> zero_address"
    and "nb < nv + 1000000 * 10 ^ 9"
  shows "validate_bridge_call cs config target nb nv =
           (if true_divide_overflows nb \<or> true_divide_overflows (nv + 1000000 * 10 ^ 9)
            then Inl OverflowError
            else Inr \<lparr>bv_call_target = target, bv_native_balance = nb,
                      bv_required_native = nv + 1000000 * 10 ^ 9,
                      bv_has_sufficient_native = False\<rparr>)"
  using assms by (simp add: validate_bridge_call_def Let_def)

lemma validate_bridge_call_in_float_range:
  assumes "cs (PStr target) = Inr a"
    and "\<not> true_divide_overflows nb" and "\<not> true_divide_overflows (nv + 1000000 * 10 ^ 9)"
  shows "(validate_bridge_call cs config target nb nv = Inl (ValueError CallTargetIsZero)
            \<longleftrightarrow> a = zero_address) \<and>
         ((\<exists>e. validate_bridge_call cs config target nb nv = Inl e) \<longleftrightarrow> a = zero_address) \<and>
         (a \<noteq> zero_address \<longrightarrow>
            validate_bridge_call cs config target nb nv =
              Inr \<lparr>bv_call_target = target, bv_native_balance = nb,
                   bv_required_native = nv + 1000000 * 10 ^ 9,
                   bv_has_sufficient_native = (nb \<ge> nv + 1000000 * 10 ^ 9)\<rparr>)"
  using assms by (auto simp: validate_bridge_call_def Let_def)

lemma digits_value_zeros:
  "digits_value 16 acc False (replicate n (CHR ''0'')) = Some (acc * 16 ^ n)"
proof (induction n arbitrary: acc)
  case 0
  show ?case by simp
next
  case (Suc n)
  have "digit_value (CHR ''0'') = Some 0" by (simp add: digit_value_def char_code_def)
  then show ?case using Suc.IH[of "acc * 16"] by simp
qed

lemma strip_no_space_ends:
  assumes "s = c # t" and "\<not> sp c" and "s = u @ [d]" and "\<not> sp d"
  shows "strip sp s = s"
proof -
  have "dropWhile sp s = s" using assms(1,2) by simp
  moreover have "dropWhile sp (rev s) = rev s" using assms(3,4) by simp
  ultimately show ?thesis by (simp add: strip_def)
qed

lemma huge_value:
  "py_int16 (PStr huge_value_hex) = Inr (2 ^ 1100)"
proof -
  have z: "\<not> is_space (CHR ''0'')" by (simp add: is_space_def char_code_def)
  have "(275 :: nat) = Suc 274" by simp
  then have c: "replicate 275 (CHR ''0'') = CHR ''0'' # replicate 274 (CHR ''0'')"
    by (simp only: replicate_Suc)
  then have e: "replicate 275 (CHR ''0'') = replicate 274 (CHR ''0'') @ [CHR ''0'']"
    by (simp only: replicate_append_same)
  have st: "strip is_space huge_value_hex = huge_value_hex"
    by (rule strip_no_space_ends[where c = "CHR ''0''" and d = "CHR ''0''"
          and t = "''x1'' @ replicate 275 (CHR ''0'')"
          and u = "''0x1'' @ replicate 274 (CHR ''0'')"])
       (simp_all add: huge_value_hex_def z e)
  have d1: "digit_value (CHR ''1'') = Some 1" by (simp add: digit_value_def char_code_def)
  have dv: "digits_value 16 0 False (''1'' @ replicate 275 (CHR ''0'')) = Some (16 ^ 275)"
    using digits_value_zeros[of 1 275] by (simp add: d1)
  have p: "(16 :: nat) ^ 275 = 2 ^ 1100"
  proof -
    have "(16 :: nat) = 2 ^ 4" by simp
    then have "(16 :: nat) ^ 275 = (2 ^ 4) ^ 275" by simp
    also have "\<dots> = 2 ^ (4 * 275)" by (simp only: power_mult)
    finally show ?thesis by simp
  qed
  have "int_of_text is_space 16 huge_value_hex = Inr (int (16 ^ 275))"
    unfolding int_of_text_def st
    using dv
    by (simp add: huge_value_hex_def split_sign_def skip_prefix_def startswith_def Let_def)
  then show ?thesis by (simp add: py_int16_def p)
qed

section \<open>Properties of the contract-handle cache\<close>

lemma get_or_create_contract_cases:
  assumes "get_or_create_contract cs cache web3 token_address = Inr (contract, cache')"
  shows "\<exists>a. cs (PStr token_address) = Inr a \<and>
           ((map_of cache (object_id web3, a) = Some contract \<and> cache' = cache) \<or>
            (map_of cache (object_id web3, a) = None \<and>
             contract = \<lparr>handle_web3 = web3, handle_address = a\<rparr> \<and>
             cache' = ((object_id web3, a), contract) # cache))"
  using assms
  unfolding get_or_create_contract_def ebind_Inr_iff Let_def
  by (auto split: option.splits)

lemma cache_keys_by_identity_lookup:
  assumes "cache_keys_by_identity cache" and "map_of cache k = Some c"
  shows "k = (object_id (handle_web3 c), handle_address c)"
proof -
  from assms(2) have "(k, c) \<in> set cache" by (rule map_of_SomeD)
  with assms(1) show ?thesis by (auto simp: cache_keys_by_identity_def list_all_iff)
qed

section \<open>Properties of the route quote decoder\<close>










lemma reraise_Inl: "reraise m r = Inl e \<Longrightarrow> e = ValueError m"
  by (cases r) (simp_all add: reraise_def)

lemma decode_snwap_error:
  "decode_snwap cs decode tx_data = Inl e \<Longrightarrow> e = ValueError DecodeSnwapFailed"
  unfolding decode_snwap_def by (rule reraise_Inl)

lemma decode_single_route_error:
  "decode_single_route cs decode tx_data = Inl e \<Longrightarrow> e = ValueError DecodeSnwapFailed"
  by (cases "decode_snwap cs decode tx_data")
     (auto simp: decode_single_route_def dest: decode_snwap_error)









subsection \<open>The concrete run, evaluated\<close>

lemmas demo_eval =
  demo_config_def demo_web3_def demo_read_balance_def demo_quote_fn_def demo_quote_def demo_tokens_def
  addr_chwmper_def addr_bridger_def addr_usdc_def addr_lifi_def addr_executor_def
  addr_token_a_def addr_token_b_def addr_token_c_def

lemma demo_sorted:
  "iter_whitelisted_tokens demo_tokens =
     [\<lparr>symbol = ''AAA'', address = addr_token_a\<rparr>,
      \<lparr>symbol = ''BBB'', address = addr_token_b\<rparr>,
      \<lparr>symbol = ''CCC'', address = addr_token_c\<rparr>]"
  by (simp add: iter_whitelisted_tokens_def demo_tokens_def)

lemma demo_discount:
  "apply_discount 2000000 \<lparr>dec_sign = False, dec_int = 98, dec_exp = - 2\<rparr> = Inr 1960000"
  by (simp add: decimal_eval ndigits.simps)

lemma demo_build:
  "build_swap_parameters demo_read_balance (demo_quote_fn 2000000) (demo_config demo_tokens) demo_web3
     addr_chwmper addr_bridger =
   Inr \<lparr>input_tokens = [(addr_token_a, 1000, addr_executor)],
        output_tokens = [(addr_usdc, addr_bridger, 1960000)],
        executors = [(addr_executor, 0, [1, 2])],
        min_total_usdc = 1960000,
        assumed_total_usdc = 2000000,
        token_quotes =
          [\<lparr>tq_symbol = ''AAA'', tq_token_address = addr_token_a, tq_balance = 1000,
            tq_assumed_usdc_out = 2000000, tq_min_usdc_out = 1960000,
            tq_executor = addr_executor, tq_executor_data = [1, 2]\<rparr>]\<rparr>"
proof -
  have cfg: "whitelisted_tokens (base_contracts (demo_config demo_tokens)) = demo_tokens"
    "slippage_tolerance (defaults (demo_config demo_tokens)) = \<lparr>dec_sign = False, dec_int = 98, dec_exp = - 2\<rparr>"
    "usdc_threshold (defaults (demo_config demo_tokens)) = 1000000"
    "usdc_address (base_contracts (demo_config demo_tokens)) = addr_usdc"
    "chain_id (base_chain (demo_config demo_tokens)) = 8453"
    by (simp_all add: demo_config_def)
  show ?thesis
    unfolding build_swap_parameters_def cfg demo_sorted
    by (simp add: cfg demo_discount ensure_web3_connected_def swap_acc_init_def swap_append_def
        demo_web3_def demo_read_balance_def demo_quote_fn_def demo_quote_def
        addr_chwmper_def addr_bridger_def addr_usdc_def addr_lifi_def addr_executor_def
        addr_token_a_def addr_token_b_def addr_token_c_def)
qed

lemmas text_eval =
  int_of_text_def strip_def is_space_def is_ascii_space_def char_code_def split_sign_def
  skip_prefix_def startswith_def digit_value_def hex_value_def hex_to_bytes_def py_int16_def
  getitem_def Let_def

lemma demo_checksum_digits:
  "demo_checksum (PStr addr_lifi) = Inr addr_lifi"
  "demo_checksum (PStr zero_address) = Inr zero_address"
  "demo_checksum (PStr addr_token_a) = Inr addr_token_a"
  "demo_checksum (PStr addr_token_b) = Inr addr_token_b"
  "demo_checksum (PStr addr_chwmper) = Inr addr_chwmper"
  by (simp_all add: demo_checksum_def startswith_def is_decimal_digit_def char_code_def
      addr_lifi_def zero_address_def addr_token_a_def addr_token_b_def addr_chwmper_def)

lemma demo_envelope_fields:
  "getitem (demo_envelope target val) ''transaction'' =
     Inr (PDict [(''to'', PStr target), (''data'', PStr ''0xabcdef''), (''value'', PStr val)])"
  "getitem (PDict [(''to'', PStr target), (''data'', PStr ''0xabcdef''), (''value'', PStr val)]) ''to'' =
     Inr (PStr target)"
  "getitem (PDict [(''to'', PStr target), (''data'', PStr ''0xabcdef''), (''value'', PStr val)]) ''data'' =
     Inr (PStr ''0xabcdef'')"
  "getitem (PDict [(''to'', PStr target), (''data'', PStr ''0xabcdef''), (''value'', PStr val)]) ''value'' =
     Inr (PStr val)"
  by (simp_all add: demo_envelope_def getitem_def)

lemma demo_envelope_data: "hex_to_bytes (PStr ''0xabcdef'') = Inr [171, 205, 239]"
  by (simp add: text_eval)

lemma demo_values:
  "py_int16 (PStr ''0x10'') = Inr 16"
  "py_int16 (PStr ''-0x1'') = Inr (- 1)"
  by (simp_all add: text_eval)

lemma demo_connected:
  "ensure_web3_connected demo_web3 (Some (chain_id (base_chain (demo_config ts)))) = Inr ()"
  by (simp add: ensure_web3_connected_def demo_web3_def demo_config_def)

lemma demo_usdc_balance:
  "demo_read_balance demo_web3 (usdc_address (base_contracts (demo_config ts))) addr_bridger = Inr 500"
  by (simp add: demo_read_balance_def demo_config_def addr_usdc_def addr_token_a_def
      addr_token_b_def addr_token_c_def)

lemma demo_bridge:
  assumes "demo_checksum (PStr target) = Inr target" and "py_int16 (PStr val) = Inr n"
  shows "build_bridge_call demo_checksum demo_read_balance (demo_jumper_fn target val)
           (demo_config demo_tokens) demo_web3 addr_bridger 1960000 =
         Inr \<lparr>call_target = target, call_data = [171, 205, 239], native_value = n,
              bridge_amount = 1960500, contract_usdc_balance = 500,
              bridge_min_total_usdc = 1960000, jumper_payload = demo_envelope target val\<rparr>"
  using assms
  by (simp add: build_bridge_call_def Let_def demo_connected demo_usdc_balance demo_jumper_fn_def
      demo_envelope_fields demo_envelope_data)


lemma demo_config_fields:
  "whitelisted_tokens (base_contracts (demo_config ts)) = ts"
  "chwmper_address (base_contracts (demo_config ts)) = addr_chwmper"
  "revenue_bridger_address (base_contracts (demo_config ts)) = addr_bridger"
  "usdc_address (base_contracts (demo_config ts)) = addr_usdc"
  "lifi_diamond_address (base_contracts (demo_config ts)) = addr_lifi"
  "chain_id (base_chain (demo_config ts)) = 8453"
  "rpc_url (base_chain (demo_config ts)) = Some ''http://rpc''"
  "mainnet_recipient (demo_config ts) = addr_chwmper"
  "usdc_threshold (defaults (demo_config ts)) = 1000000"
  "slippage_tolerance (defaults (demo_config ts)) = \<lparr>dec_sign = False, dec_int = 98, dec_exp = - 2\<rparr>"
  by (simp_all add: demo_config_def)

lemma demo_validate:
  "validate_swap_inputs demo_checksum demo_read_balance demo_read_allowance (demo_config demo_tokens)
     demo_web3 [(addr_token_a, 1000, addr_executor)] [(addr_usdc, addr_bridger, 1960000)]
     [(addr_executor, 0, [1, 2])] =
   Inr [\<lparr>tv_token_address = addr_token_a, tv_symbol = ''AAA'', tv_required_amount = 1000,
         tv_balance = 1000, tv_allowance = 400\<rparr>]"
proof -
  have sym: "address_symbol_map (demo_config demo_tokens) (lower addr_token_a) = Some ''AAA''"
    by (simp add: address_symbol_map_def demo_config_fields demo_tokens_def)
       code_simp
  show ?thesis
    by (simp add: validate_swap_inputs_def demo_connected validate_token_def Let_def
        demo_checksum_digits sym demo_read_balance_def demo_read_allowance_def
        demo_config_fields ensure_web3_connected_def demo_web3_def)
qed










text \<open>
  C1. The claim: for every included token the per-token minimum equals
  \<open>floor(assumedAmountOut * slippageTolerance)\<close>, for every tolerance in (0,1] and every
  assumed output \<open>a \<ge> 0\<close>, with \<open>0 \<le> minOut \<le> a\<close>. The code multiplies under the
  default decimal context, which rounds the product to 28 significant digits, half to
  even, before \<open>quantize\<close> truncates it. While the product of the amount and the
  tolerance's coefficient stays under \<open>10^28\<close> the result is the floor
  (\<open>apply_discount_within_precision\<close>, \<open>apply_discount_bounds\<close>). Beyond it the
  code departs from the claim: at \<open>a = 10^27 + 1\<close> and tolerance 0.98 the floor is
  \<open>980000000000000000000000000\<close> and the code returns one more, also in the plan the
  builder returns; at \<open>a = 10^28\<close> and tolerance 1.0 it raises InvalidOperation and
  there is no minimum at all.
\<close>

theorem discount_departs_from_floor_beyond_28_digits:
  "apply_discount (10 ^ 27 + 1) \<lparr>dec_sign = False, dec_int = 98, dec_exp = - 2\<rparr> =
     Inr 980000000000000000000000001 \<and>
   ((10 ^ 27 + 1) * 98) div 100 = (980000000000000000000000000 :: int) \<and>
   apply_discount (10 ^ 28) \<lparr>dec_sign = False, dec_int = 10, dec_exp = - 1\<rparr> =
     Inl InvalidOperation \<and>
   map_sum id min_total_usdc
     (build_swap_parameters demo_read_balance (demo_quote_fn (10 ^ 27 + 1)) (demo_config demo_tokens)
        demo_web3 addr_chwmper addr_bridger) =
     Inr 980000000000000000000000001"
proof -
  have n29: "ndigits 98000000000000000000000000098 = 29"
    by (rule ndigits_eq[of 28, simplified]) simp_all
  have n28: "ndigits 9800000000000000000000000010 = 28"
    by (rule ndigits_eq[of 27, simplified]) simp_all
  have n27: "ndigits 980000000000000000000000001 = 27"
    by (rule ndigits_eq[of 26, simplified]) simp_all
  have d1: "apply_discount (10 ^ 27 + 1) \<lparr>dec_sign = False, dec_int = 98, dec_exp = - 2\<rparr> =
     Inr 980000000000000000000000001"
    by (simp add: decimal_eval n29 n28 n27)
  have n30: "ndigits 100000000000000000000000000000 = 30"
    by (rule ndigits_eq[of 29, simplified]) simp_all
  have n28': "ndigits 1000000000000000000000000000 = 28"
    by (rule ndigits_eq[of 27, simplified]) simp_all
  have d2: "apply_discount (10 ^ 28) \<lparr>dec_sign = False, dec_int = 10, dec_exp = - 1\<rparr> =
     Inl InvalidOperation"
    by (simp add: decimal_eval n30 n28')
  have cfg: "whitelisted_tokens (base_contracts (demo_config demo_tokens)) = demo_tokens"
    "slippage_tolerance (defaults (demo_config demo_tokens)) = \<lparr>dec_sign = False, dec_int = 98, dec_exp = - 2\<rparr>"
    "usdc_threshold (defaults (demo_config demo_tokens)) = 1000000"
    "usdc_address (base_contracts (demo_config demo_tokens)) = addr_usdc"
    "chain_id (base_chain (demo_config demo_tokens)) = 8453"
    by (simp_all add: demo_config_def)
  have d1': "apply_discount 1000000000000000000000000001 \<lparr>dec_sign = False, dec_int = 98, dec_exp = - 2\<rparr> =
     Inr 980000000000000000000000001"
    using d1 by simp
  have b: "map_sum id min_total_usdc
     (build_swap_parameters demo_read_balance (demo_quote_fn (10 ^ 27 + 1)) (demo_config demo_tokens)
        demo_web3 addr_chwmper addr_bridger) =
     Inr 980000000000000000000000001"
    unfolding build_swap_parameters_def cfg demo_sorted
    by (simp add: cfg d1' demo_discount ensure_web3_connected_def swap_acc_init_def swap_append_def
        demo_web3_def demo_read_balance_def demo_quote_fn_def demo_quote_def
        addr_chwmper_def addr_bridger_def addr_usdc_def addr_lifi_def addr_executor_def
        addr_token_a_def addr_token_b_def addr_token_c_def)
  show ?thesis using d1 d2 b by simp
qed

subsection \<open>Claims about the swap builder\<close>

text \<open>
  C2. Every plan the swap parameter builder returns has exactly one OutputToken entry, and
  the \<open>minAmountOut\<close> of that entry is the sum of the per-token minimum outputs of
  the tokens that were included; each per-token minimum is the value computed once by the
  discount step for that token's assumed output.
\<close>

theorem output_token_is_sum_of_minimums:
  assumes "build_swap_parameters read_balance quote_fn config web3 chwomper_address contract_address = Inr r"
  shows "length (output_tokens r) = 1 \<and>
         output_tokens r =
           [(usdc_address (base_contracts config), contract_address,
             sum_list (map tq_min_usdc_out (token_quotes r)))] \<and>
         min_total_usdc r = sum_list (map tq_min_usdc_out (token_quotes r)) \<and>
         map fst (input_tokens r) = map tq_token_address (token_quotes r) \<and>
         list_all (\<lambda>q. apply_discount (tq_assumed_usdc_out q) (slippage_tolerance (defaults config)) =
                        Inr (tq_min_usdc_out q)) (token_quotes r)"
proof -
  note c = build_swap_parameters_consistent[OF assms]
  have "list_all (\<lambda>q. apply_discount (tq_assumed_usdc_out q) (slippage_tolerance (defaults config)) =
                        Inr (tq_min_usdc_out q)) (token_quotes r)"
    using c(5) by (simp add: list_all_iff quote_matches_def)
  moreover have "map fst (input_tokens r) = map tq_token_address (token_quotes r)"
    using c(1) by (simp add: comp_def)
  ultimately show ?thesis
    using c(3) c(6) by simp
qed

theorem output_token_is_sum_of_minimums_witness:
  "\<exists>r. build_swap_parameters demo_read_balance (demo_quote_fn 2000000) (demo_config demo_tokens)
          demo_web3 addr_chwmper addr_bridger = Inr r \<and>
        length (output_tokens r) = 1 \<and>
        output_tokens r = [(addr_usdc, addr_bridger, 1960000)] \<and>
        map tq_min_usdc_out (token_quotes r) = [1960000] \<and>
        min_total_usdc r = 1960000"
  using output_token_is_sum_of_minimums[OF demo_build] demo_build
  by simp

text \<open>
  C4. In every plan the swap parameter builder returns, the InputToken array and the
  ExecutorCall array have the same length, and entry \<open>i\<close> of each is built from the
  same collected quote: the InputToken's \<open>transferTo\<close> is the ExecutorCall's executor
  address, and both are the executor that the quote oracle answered for that token and
  balance.
\<close>

theorem input_tokens_aligned_with_executors:
  assumes "build_swap_parameters read_balance quote_fn config web3 chwomper_address contract_address = Inr r"
  shows "length (input_tokens r) = length (executors r) \<and>
         length (token_quotes r) = length (input_tokens r) \<and>
         (\<forall>i < length (input_tokens r).
            snd (snd (input_tokens r ! i)) = fst (executors r ! i) \<and>
            input_tokens r ! i =
              (tq_token_address (token_quotes r ! i), tq_balance (token_quotes r ! i),
               tq_executor (token_quotes r ! i)) \<and>
            executors r ! i =
              (tq_executor (token_quotes r ! i), 0, tq_executor_data (token_quotes r ! i)) \<and>
            quote_matches read_balance quote_fn config web3 chwomper_address contract_address
              (token_quotes r ! i))"
proof -
  note c = build_swap_parameters_consistent[OF assms]
  have len: "length (input_tokens r) = length (token_quotes r)"
    "length (executors r) = length (token_quotes r)"
    using c(1) c(2) by simp_all
  have "\<forall>i < length (token_quotes r).
          quote_matches read_balance quote_fn config web3 chwomper_address contract_address
            (token_quotes r ! i)"
    using c(5) by (simp add: list_all_length)
  then show ?thesis
    using len by (simp add: c(1) c(2))
qed

theorem input_tokens_aligned_with_executors_witness:
  "\<exists>r. build_swap_parameters demo_read_balance (demo_quote_fn 2000000) (demo_config demo_tokens)
          demo_web3 addr_chwmper addr_bridger = Inr r \<and>
        length (input_tokens r) = 1 \<and> length (executors r) = 1 \<and>
        snd (snd (input_tokens r ! 0)) = fst (executors r ! 0) \<and>
        fst (executors r ! 0) = addr_executor"
  using input_tokens_aligned_with_executors[OF demo_build] demo_build
  by simp

text \<open>
  C8. During the swap build a token with zero balance, a token whose quote request raised,
  and a token whose assumed output is under the dust threshold are skipped: the loop, and
  the whole build when another token remains, gives the result it gives without them. An
  empty whitelist fails with "No whitelisted tokens configured" whatever the oracles
  would answer, and a whitelist of which every token is skipped fails with the different
  error "No eligible tokens to swap after applying thresholds".
\<close>

theorem skipped_tokens_and_empty_builds:
  "swap_loop read_balance quote_fn config web3 chwomper_address contract_address tokens acc =
     swap_loop read_balance quote_fn config web3 chwomper_address contract_address
       (filter (\<lambda>t. \<not> token_skipped read_balance quote_fn config web3 chwomper_address contract_address t)
          tokens) acc \<and>
   (ensure_web3_connected web3 (Some (chain_id (base_chain config))) = Inr () \<and>
    list_all (\<lambda>t. token_skipped read_balance quote_fn config web3 chwomper_address contract_address t \<or>
                   token_included read_balance quote_fn config web3 chwomper_address contract_address t)
      (whitelisted_tokens (base_contracts config)) \<and>
    \<not> list_all (token_skipped read_balance quote_fn config web3 chwomper_address contract_address)
      (whitelisted_tokens (base_contracts config)) \<longrightarrow>
    (\<exists>r. build_swap_parameters read_balance quote_fn config web3 chwomper_address contract_address = Inr r \<and>
         map fst (input_tokens r) =
           map address
             (filter (\<lambda>t. \<not> token_skipped read_balance quote_fn config web3 chwomper_address contract_address t)
                (iter_whitelisted_tokens (whitelisted_tokens (base_contracts config)))))) \<and>
   (ensure_web3_connected web3 (Some (chain_id (base_chain config))) = Inr () \<and>
    whitelisted_tokens (base_contracts config) \<noteq> [] \<and>
    list_all (token_skipped read_balance quote_fn' config web3 chwomper_address contract_address)
      (whitelisted_tokens (base_contracts config)) \<longrightarrow>
    build_swap_parameters read_balance quote_fn' config web3 chwomper_address contract_address =
      Inl (ValueError NoEligibleTokens)) \<and>
   (ensure_web3_connected web3 (Some (chain_id (base_chain config0))) = Inr () \<and>
    whitelisted_tokens (base_contracts config0) = [] \<longrightarrow>
    build_swap_parameters read_balance quote_fn config0 web3 chwomper_address contract_address =
      Inl (ValueError NoWhitelistedTokens)) \<and>
   ValueError NoWhitelistedTokens \<noteq> ValueError NoEligibleTokens"
proof (intro conjI impI)
  show "swap_loop read_balance quote_fn config web3 chwomper_address contract_address tokens acc =
     swap_loop read_balance quote_fn config web3 chwomper_address contract_address
       (filter (\<lambda>t. \<not> token_skipped read_balance quote_fn config web3 chwomper_address contract_address t)
          tokens) acc"
    by (rule swap_loop_filter_skipped)
next
  assume h: "ensure_web3_connected web3 (Some (chain_id (base_chain config))) = Inr () \<and>
    list_all (\<lambda>t. token_skipped read_balance quote_fn config web3 chwomper_address contract_address t \<or>
                   token_included read_balance quote_fn config web3 chwomper_address contract_address t)
      (whitelisted_tokens (base_contracts config)) \<and>
    \<not> list_all (token_skipped read_balance quote_fn config web3 chwomper_address contract_address)
      (whitelisted_tokens (base_contracts config))"
  then show "\<exists>r. build_swap_parameters read_balance quote_fn config web3 chwomper_address contract_address = Inr r \<and>
         map fst (input_tokens r) =
           map address
             (filter (\<lambda>t. \<not> token_skipped read_balance quote_fn config web3 chwomper_address contract_address t)
                (iter_whitelisted_tokens (whitelisted_tokens (base_contracts config))))"
    using build_swap_parameters_succeeds by blast
next
  assume "ensure_web3_connected web3 (Some (chain_id (base_chain config))) = Inr () \<and>
    whitelisted_tokens (base_contracts config) \<noteq> [] \<and>
    list_all (token_skipped read_balance quote_fn' config web3 chwomper_address contract_address)
      (whitelisted_tokens (base_contracts config))"
  then show "build_swap_parameters read_balance quote_fn' config web3 chwomper_address contract_address =
      Inl (ValueError NoEligibleTokens)"
    using build_swap_parameters_all_skipped by blast
next
  assume "ensure_web3_connected web3 (Some (chain_id (base_chain config0))) = Inr () \<and>
    whitelisted_tokens (base_contracts config0) = []"
  then show "build_swap_parameters read_balance quote_fn config0 web3 chwomper_address contract_address =
      Inl (ValueError NoWhitelistedTokens)"
    by (simp add: build_swap_parameters_def)
next
  show "ValueError NoWhitelistedTokens \<noteq> ValueError NoEligibleTokens"
    by simp
qed

theorem skipped_tokens_and_empty_builds_witness:
  "build_swap_parameters demo_read_balance (demo_quote_fn 2000000) (demo_config demo_tokens) demo_web3
     addr_chwmper addr_bridger \<noteq> Inl (ValueError NoEligibleTokens) \<and>
   (\<exists>r. build_swap_parameters demo_read_balance (demo_quote_fn 2000000) (demo_config demo_tokens)
          demo_web3 addr_chwmper addr_bridger = Inr r \<and>
        map fst (input_tokens r) = [addr_token_a]) \<and>
   build_swap_parameters demo_read_balance (demo_quote_fn 5) (demo_config demo_tokens) demo_web3
     addr_chwmper addr_bridger = Inl (ValueError NoEligibleTokens) \<and>
   build_swap_parameters demo_read_balance (demo_quote_fn 2000000) (demo_config []) demo_web3
     addr_chwmper addr_bridger = Inl (ValueError NoWhitelistedTokens)"
proof -
  note t = skipped_tokens_and_empty_builds
    [of demo_read_balance "demo_quote_fn 2000000" "demo_config demo_tokens" demo_web3
        addr_chwmper addr_bridger "[]" swap_acc_init "demo_quote_fn 5" "demo_config []"]
  have conn: "ensure_web3_connected demo_web3 (Some (chain_id (base_chain (demo_config ts)))) = Inr ()" for ts
    by (simp add: ensure_web3_connected_def demo_web3_def demo_config_def)
  have wl: "whitelisted_tokens (base_contracts (demo_config ts)) = ts" for ts
    by (simp add: demo_config_def)
  have sk5: "list_all (token_skipped demo_read_balance (demo_quote_fn 5) (demo_config demo_tokens) demo_web3
              addr_chwmper addr_bridger) demo_tokens"
    by (simp add: token_skipped_def demo_eval)
  have h2: "list_all (\<lambda>t. token_skipped demo_read_balance (demo_quote_fn 2000000) (demo_config demo_tokens)
                demo_web3 addr_chwmper addr_bridger t \<or>
              token_included demo_read_balance (demo_quote_fn 2000000) (demo_config demo_tokens)
                demo_web3 addr_chwmper addr_bridger t) demo_tokens"
    by (simp add: token_skipped_def token_included_def demo_eval demo_discount)
  have h2': "\<not> list_all (token_skipped demo_read_balance (demo_quote_fn 2000000) (demo_config demo_tokens)
                demo_web3 addr_chwmper addr_bridger) demo_tokens"
    by (simp add: token_skipped_def demo_eval)
  have flt: "filter (\<lambda>t. \<not> token_skipped demo_read_balance (demo_quote_fn 2000000) (demo_config demo_tokens)
                demo_web3 addr_chwmper addr_bridger t) (iter_whitelisted_tokens demo_tokens) =
             [\<lparr>symbol = ''AAA'', address = addr_token_a\<rparr>]"
    unfolding demo_sorted by (simp add: token_skipped_def demo_eval)
  have ne: "demo_tokens \<noteq> []" by (simp add: demo_tokens_def)
  from t conn wl sk5 h2 h2' flt ne show ?thesis
    by auto
qed

subsection \<open>Claims about the bridge builder\<close>

text \<open>
  C3. Whatever the observed settlement-asset balance of the destination contract and the
  aggregate minimum are, a BridgeCall that the bridge parameter builder returns has
  \<open>bridgeAmount\<close> equal to their sum; it records the balance that was read and the
  minimum that was passed in unchanged, and the sum is the amount the bridge quote was
  requested for.
\<close>

theorem bridge_amount_is_balance_plus_minimum:
  assumes "build_bridge_call to_checksum_address read_balance jumper_fn config web3
             contract_address min_total = Inr r"
  shows "bridge_amount r = contract_usdc_balance r + bridge_min_total_usdc r \<and>
         bridge_min_total_usdc r = min_total \<and>
         read_balance web3 (usdc_address (base_contracts config)) contract_address =
           Inr (contract_usdc_balance r) \<and>
         jumper_fn config (bridge_amount r) contract_address (mainnet_recipient config) =
           Inr (jumper_payload r)"
  using build_bridge_call_InrD[OF assms] by auto

theorem bridge_amount_is_balance_plus_minimum_witness:
  "\<exists>r. build_bridge_call demo_checksum demo_read_balance (demo_jumper_fn addr_lifi ''0x10'')
          (demo_config demo_tokens) demo_web3 addr_bridger 1960000 = Inr r \<and>
        contract_usdc_balance r = 500 \<and> bridge_min_total_usdc r = 1960000 \<and>
        bridge_amount r = 1960500"
  using bridge_amount_is_balance_plus_minimum
          [OF demo_bridge[OF demo_checksum_digits(1) demo_values(1)]]
        demo_bridge[OF demo_checksum_digits(1) demo_values(1)]
  by simp

text \<open>
  C10, as stated: every BridgeCall the builder returns has \<open>nativeValue \<ge> 0\<close>. The
  builder reads the envelope's value with \<open>int(text, 16)\<close>, which accepts a sign: the
  envelope with value \<open>-0x1\<close> is accepted and gives \<open>nativeValue = -1\<close>.
\<close>

theorem native_value_negative_counterexample:
  "build_bridge_call demo_checksum demo_read_balance (demo_jumper_fn addr_lifi ''-0x1'')
     (demo_config demo_tokens) demo_web3 addr_bridger 1960000 =
   Inr \<lparr>call_target = addr_lifi, call_data = [171, 205, 239], native_value = - 1,
        bridge_amount = 1960500, contract_usdc_balance = 500,
        bridge_min_total_usdc = 1960000, jumper_payload = demo_envelope addr_lifi ''-0x1''\<rparr> \<and>
   \<not> (0 \<le> native_value
          \<lparr>call_target = addr_lifi, call_data = [171, 205, 239], native_value = - 1,
           bridge_amount = 1960500, contract_usdc_balance = 500,
           bridge_min_total_usdc = 1960000, jumper_payload = demo_envelope addr_lifi ''-0x1''\<rparr>)"
  using demo_bridge[OF demo_checksum_digits(1) demo_values(2)] by simp

text \<open>
  C10, as amended. For every envelope the bridge parameter builder accepts,
  \<open>nativeValue\<close> is the signed base-16 reading of the envelope's value: non-negative
  when the text carries no leading minus sign, and non-positive when it does.
\<close>

theorem native_value_is_signed_reading:
  assumes "build_bridge_call to_checksum_address read_balance jumper_fn config web3
             contract_address min_total = Inr r"
  shows "\<exists>tx tx_value.
           getitem (jumper_payload r) ''transaction'' = Inr tx \<and>
           getitem tx ''value'' = Inr tx_value \<and>
           py_int16 tx_value = Inr (native_value r) \<and>
           (\<not> has_minus_sign tx_value \<longrightarrow> 0 \<le> native_value r) \<and>
           (has_minus_sign tx_value \<longrightarrow> native_value r \<le> 0)"
proof -
  from build_bridge_call_InrD[OF assms] obtain tx tx_value where
    "getitem (jumper_payload r) ''transaction'' = Inr tx"
    "getitem tx ''value'' = Inr tx_value"
    "py_int16 tx_value = Inr (native_value r)"
    by blast
  with py_int16_sign[of tx_value "native_value r"] show ?thesis by blast
qed

theorem native_value_is_signed_reading_witness:
  "\<exists>r. build_bridge_call demo_checksum demo_read_balance (demo_jumper_fn addr_lifi ''0x10'')
          (demo_config demo_tokens) demo_web3 addr_bridger 1960000 = Inr r \<and>
        \<not> has_minus_sign (PStr ''0x10'') \<and> native_value r = 16 \<and> 0 \<le> native_value r"
  using native_value_is_signed_reading
          [OF demo_bridge[OF demo_checksum_digits(1) demo_values(1)]]
        demo_bridge[OF demo_checksum_digits(1) demo_values(1)]
  by (simp add: has_minus_sign_def startswith_def is_space_def char_code_def)

subsection \<open>Claims about the validation\<close>

text \<open>
  C7. The claim: bridge-call validation raises exactly when the call target is the zero
  address; otherwise it returns a result whose \<open>requiredNative\<close> is \<open>nativeValue\<close> plus
  the constant 1,000,000 * 10^9, and a signer balance under \<open>requiredNative\<close> is
  recorded as insufficient funding without raising. The code does so while the balance
  and the required amount, divided by \<open>10^18\<close>, fit a float
  (\<open>validate_bridge_call_in_float_range\<close>), and for the zero address and for a funded
  signer whatever the amounts (\<open>validate_bridge_call_zero_target\<close>,
  \<open>validate_bridge_call_funded\<close>). On a shortfall it first computes
  \<open>native_balance / 10**18\<close> and \<open>required_native / 10**18\<close> for its warning, and that
  division raises OverflowError from \<open>(2^1024 - 2^970) * 10^18\<close> on. The envelope value
  \<open>0x1\<close> followed by 275 zeros builds a BridgeCall with \<open>nativeValue = 2^1100\<close> and a
  target that is not the zero address; its validation with a signer balance of 0 raises
  OverflowError instead of returning the shortfall, and so does \<open>nativeValue = 10^330\<close>.
\<close>

theorem bridge_validation_raises_on_huge_shortfall:
  "demo_checksum (PStr addr_lifi) = Inr addr_lifi \<and> addr_lifi \<noteq> zero_address \<and>
   build_bridge_call demo_checksum demo_read_balance (demo_jumper_fn addr_lifi huge_value_hex)
     (demo_config demo_tokens) demo_web3 addr_bridger 1960000 =
     Inr \<lparr>call_target = addr_lifi, call_data = [171, 205, 239], native_value = 2 ^ 1100,
          bridge_amount = 1960500, contract_usdc_balance = 500,
          bridge_min_total_usdc = 1960000,
          jumper_payload = demo_envelope addr_lifi huge_value_hex\<rparr> \<and>
   validate_bridge_call demo_checksum (demo_config demo_tokens) addr_lifi 0 (2 ^ 1100) =
     Inl OverflowError \<and>
   validate_bridge_call demo_checksum (demo_config demo_tokens) addr_lifi 0 (10 ^ 330) =
     Inl OverflowError \<and>
   validate_bridge_call demo_checksum (demo_config demo_tokens) addr_lifi 5 16 =
     Inr \<lparr>bv_call_target = addr_lifi, bv_native_balance = 5,
          bv_required_native = 1000000000000016, bv_has_sufficient_native = False\<rparr> \<and>
   validate_bridge_call demo_checksum (demo_config demo_tokens) zero_address 5 16 =
     Inl (ValueError CallTargetIsZero)"
proof -
  have ne: "addr_lifi \<noteq> zero_address" by (simp add: addr_lifi_def zero_address_def)
  note b = demo_bridge[OF demo_checksum_digits(1) huge_value]
  have o1: "validate_bridge_call demo_checksum (demo_config demo_tokens) addr_lifi 0 (2 ^ 1100) =
     Inl OverflowError"
    by (simp add: validate_bridge_call_def demo_checksum_digits ne Let_def true_divide_overflows_def)
  have o2: "validate_bridge_call demo_checksum (demo_config demo_tokens) addr_lifi 0 (10 ^ 330) =
     Inl OverflowError"
    by (simp add: validate_bridge_call_def demo_checksum_digits ne Let_def true_divide_overflows_def)
  have s: "validate_bridge_call demo_checksum (demo_config demo_tokens) addr_lifi 5 16 =
     Inr \<lparr>bv_call_target = addr_lifi, bv_native_balance = 5,
          bv_required_native = 1000000000000016, bv_has_sufficient_native = False\<rparr>"
    by (simp add: validate_bridge_call_def demo_checksum_digits ne Let_def true_divide_overflows_def)
  have z: "validate_bridge_call demo_checksum (demo_config demo_tokens) zero_address 5 16 =
     Inl (ValueError CallTargetIsZero)"
    by (simp add: validate_bridge_call_def demo_checksum_digits)
  from demo_checksum_digits(1) ne b o1 o2 s z show ?thesis by simp
qed

text \<open>
  C6. Swap-input validation reads the balance and the allowance of every InputToken. A
  returned list has one result per InputToken, in order, holding the amount required,
  the balance and the allowance that were read; each balance covers the amount, and
  \<open>has_allowance\<close> is false exactly for the tokens whose allowance is below the amount.
  When the balance of some token is below its amount no list is returned: the validation
  raises, and when every read goes through the exception is the balance failure. When
  every read goes through and every balance covers its amount, a list is returned
  whatever the allowances are.
\<close>

theorem swap_input_validation:
  "(validate_swap_inputs to_checksum_address read_balance read_allowance config web3
      input_toks output_toks execs = Inr results \<longrightarrow>
    length results = length input_toks \<and>
    (\<forall>i < length input_toks.
       tv_required_amount (results ! i) = fst (snd (input_toks ! i)) \<and>
       read_balance web3 (fst (input_toks ! i)) (chwmper_address (base_contracts config)) =
         Inr (tv_balance (results ! i)) \<and>
       read_allowance web3 (fst (input_toks ! i)) (chwmper_address (base_contracts config))
         (revenue_bridger_address (base_contracts config)) = Inr (tv_allowance (results ! i)) \<and>
       fst (snd (input_toks ! i)) \<le> tv_balance (results ! i) \<and>
       has_allowance (results ! i) = (\<not> allowance_short read_allowance config web3 (input_toks ! i)))) \<and>
   ((\<exists>it \<in> set short_toks. balance_short read_balance config web3 it) \<longrightarrow>
    (\<exists>e. validate_swap_inputs to_checksum_address read_balance read_allowance config web3
           short_toks output_toks execs = Inl e)) \<and>
   (ensure_web3_connected web3 (Some (chain_id (base_chain config))) = Inr () \<and>
    output_toks \<noteq> [] \<and> execs \<noteq> [] \<and>
    list_all (token_readable to_checksum_address read_balance read_allowance config web3) short_toks \<and>
    (\<exists>it \<in> set short_toks. balance_short read_balance config web3 it) \<longrightarrow>
    (\<exists>e. validate_swap_inputs to_checksum_address read_balance read_allowance config web3
           short_toks output_toks execs = Inl e \<and> is_balance_error e)) \<and>
   (ensure_web3_connected web3 (Some (chain_id (base_chain config))) = Inr () \<and>
    input_toks \<noteq> [] \<and> output_toks \<noteq> [] \<and> execs \<noteq> [] \<and>
    list_all (token_readable to_checksum_address read_balance read_allowance config web3) input_toks \<and>
    list_all (\<lambda>it. \<not> balance_short read_balance config web3 it) input_toks \<longrightarrow>
    (\<exists>rs. validate_swap_inputs to_checksum_address read_balance read_allowance config web3
            input_toks output_toks execs = Inr rs))"
proof (intro conjI impI)
  assume "validate_swap_inputs to_checksum_address read_balance read_allowance config web3
      input_toks output_toks execs = Inr results"
  from validate_swap_inputs_results[OF this]
  show "length results = length input_toks"
    and "\<forall>i < length input_toks.
       tv_required_amount (results ! i) = fst (snd (input_toks ! i)) \<and>
       read_balance web3 (fst (input_toks ! i)) (chwmper_address (base_contracts config)) =
         Inr (tv_balance (results ! i)) \<and>
       read_allowance web3 (fst (input_toks ! i)) (chwmper_address (base_contracts config))
         (revenue_bridger_address (base_contracts config)) = Inr (tv_allowance (results ! i)) \<and>
       fst (snd (input_toks ! i)) \<le> tv_balance (results ! i) \<and>
       has_allowance (results ! i) = (\<not> allowance_short read_allowance config web3 (input_toks ! i))"
    by blast+
next
  assume "\<exists>it \<in> set short_toks. balance_short read_balance config web3 it"
  then show "\<exists>e. validate_swap_inputs to_checksum_address read_balance read_allowance config web3
           short_toks output_toks execs = Inl e"
    by (rule validate_swap_inputs_short)
next
  assume "ensure_web3_connected web3 (Some (chain_id (base_chain config))) = Inr () \<and>
    output_toks \<noteq> [] \<and> execs \<noteq> [] \<and>
    list_all (token_readable to_checksum_address read_balance read_allowance config web3) short_toks \<and>
    (\<exists>it \<in> set short_toks. balance_short read_balance config web3 it)"
  then show "\<exists>e. validate_swap_inputs to_checksum_address read_balance read_allowance config web3
           short_toks output_toks execs = Inl e \<and> is_balance_error e"
    using validate_swap_inputs_balance_error by blast
next
  assume "ensure_web3_connected web3 (Some (chain_id (base_chain config))) = Inr () \<and>
    input_toks \<noteq> [] \<and> output_toks \<noteq> [] \<and> execs \<noteq> [] \<and>
    list_all (token_readable to_checksum_address read_balance read_allowance config web3) input_toks \<and>
    list_all (\<lambda>it. \<not> balance_short read_balance config web3 it) input_toks"
  then show "\<exists>rs. validate_swap_inputs to_checksum_address read_balance read_allowance config web3
            input_toks output_toks execs = Inr rs"
    using validate_swap_inputs_succeeds by blast
qed

theorem swap_input_validation_witness:
  "validate_swap_inputs demo_checksum demo_read_balance demo_read_allowance (demo_config demo_tokens)
     demo_web3 [(addr_token_a, 1000, addr_executor)] [(addr_usdc, addr_bridger, 1960000)]
     [(addr_executor, 0, [1, 2])] =
   Inr [\<lparr>tv_token_address = addr_token_a, tv_symbol = ''AAA'', tv_required_amount = 1000,
         tv_balance = 1000, tv_allowance = 400\<rparr>] \<and>
   \<not> has_allowance \<lparr>tv_token_address = addr_token_a, tv_symbol = ''AAA'', tv_required_amount = 1000,
         tv_balance = 1000, tv_allowance = 400\<rparr> \<and>
   (\<exists>e. validate_swap_inputs demo_checksum demo_read_balance demo_read_allowance
          (demo_config demo_tokens) demo_web3 [(addr_token_a, 1001, addr_executor)]
          [(addr_usdc, addr_bridger, 1960000)] [(addr_executor, 0, [1, 2])] = Inl e \<and>
        is_balance_error e)"
proof -
  let ?its = "[(addr_token_a, 1000, addr_executor)]"
  let ?short = "[(addr_token_a, 1001, addr_executor)]"
  let ?ots = "[(addr_usdc, addr_bridger, 1960000 :: int)]"
  let ?exs = "[(addr_executor, 0 :: int, [1, 2] :: bytes)]"
  note t = swap_input_validation
    [where to_checksum_address = demo_checksum and read_balance = demo_read_balance
       and read_allowance = demo_read_allowance and config = "demo_config demo_tokens"
       and ?web3.0 = demo_web3 and input_toks = ?its and short_toks = ?short
       and output_toks = ?ots and execs = ?exs
       and results = "[\<lparr>tv_token_address = addr_token_a, tv_symbol = ''AAA'',
         tv_required_amount = 1000, tv_balance = 1000, tv_allowance = 400\<rparr>]"]
  have rd: "list_all (token_readable demo_checksum demo_read_balance demo_read_allowance
              (demo_config demo_tokens) demo_web3) ?short"
    by (simp add: token_readable_def demo_checksum_digits demo_read_balance_def demo_read_allowance_def)
  have sh: "\<exists>it \<in> set ?short. balance_short demo_read_balance (demo_config demo_tokens) demo_web3 it"
    by (simp add: balance_short_def demo_read_balance_def)
  have al: "allowance_short demo_read_allowance (demo_config demo_tokens) demo_web3
              (addr_token_a, 1000, addr_executor)"
    by (simp add: allowance_short_def demo_read_allowance_def)
  from t demo_validate demo_connected[of demo_tokens] rd sh al show ?thesis
    by simp
qed

subsection \<open>Claim about the contract-handle cache\<close>

text \<open>
  C9, as stated: the key of the contract-handle cache is built from a connection
  identity taken from configuration, never from the identity of the connection object,
  so that two connection objects configured alike share handles. The code builds the key
  from \<open>id(web3)\<close>: a second connection object with the endpoint and chain of the
  first gets a handle of its own under a second key.
\<close>

theorem cache_shared_by_configuration_counterexample:
  "endpoint demo_web3_twin = endpoint demo_web3 \<and>
   eth_chain_id demo_web3_twin = eth_chain_id demo_web3 \<and>
   object_id demo_web3 = 1 \<and> object_id demo_web3_twin = 2 \<and>
   get_or_create_contract demo_checksum [] demo_web3 addr_token_a =
     Inr (\<lparr>handle_web3 = demo_web3, handle_address = addr_token_a\<rparr>,
          [((1, addr_token_a), \<lparr>handle_web3 = demo_web3, handle_address = addr_token_a\<rparr>)]) \<and>
   get_or_create_contract demo_checksum
     [((1, addr_token_a), \<lparr>handle_web3 = demo_web3, handle_address = addr_token_a\<rparr>)]
     demo_web3_twin addr_token_a =
     Inr (\<lparr>handle_web3 = demo_web3_twin, handle_address = addr_token_a\<rparr>,
          [((2, addr_token_a), \<lparr>handle_web3 = demo_web3_twin, handle_address = addr_token_a\<rparr>),
           ((1, addr_token_a), \<lparr>handle_web3 = demo_web3, handle_address = addr_token_a\<rparr>)])"
  by (simp add: get_or_create_contract_def demo_checksum_digits Let_def demo_web3_twin_def
      demo_web3_def)

text \<open>
  C9, as amended. Every key of the contract-handle cache is the pair of the connection
  object's identity and the checksummed token address; a lookup answers with the handle
  stored under the caller's own identity and leaves every other key as it was, and each
  handle the cache holds is bound to a connection with the identity in its key.
\<close>

theorem cache_keyed_by_object_identity:
  assumes "get_or_create_contract to_checksum_address cache web3 token_address =
             Inr (contract, cache')"
  shows "\<exists>a. to_checksum_address (PStr token_address) = Inr a \<and>
           map_of cache' (object_id web3, a) = Some contract \<and>
           set (map fst cache') = insert (object_id web3, a) (set (map fst cache)) \<and>
           (\<forall>k. k \<noteq> (object_id web3, a) \<longrightarrow> map_of cache' k = map_of cache k) \<and>
           (map_of cache (object_id web3, a) \<noteq> None \<longrightarrow>
              map_of cache (object_id web3, a) = Some contract \<and> cache' = cache) \<and>
           (map_of cache (object_id web3, a) = None \<longrightarrow>
              contract = \<lparr>handle_web3 = web3, handle_address = a\<rparr>) \<and>
           (cache_keys_by_identity cache \<longrightarrow>
              cache_keys_by_identity cache' \<and>
              object_id (handle_web3 contract) = object_id web3 \<and>
              handle_address contract = a)"
proof -
  from get_or_create_contract_cases[OF assms] obtain a where
    a: "to_checksum_address (PStr token_address) = Inr a"
    and c: "(map_of cache (object_id web3, a) = Some contract \<and> cache' = cache) \<or>
            (map_of cache (object_id web3, a) = None \<and>
             contract = \<lparr>handle_web3 = web3, handle_address = a\<rparr> \<and>
             cache' = ((object_id web3, a), contract) # cache)"
    by blast
  from c show ?thesis
  proof
    assume hit: "map_of cache (object_id web3, a) = Some contract \<and> cache' = cache"
    then have "(object_id web3, a) \<in> set (map fst cache)"
      by (metis map_of_eq_None_iff option.distinct(1) set_map)
    moreover have "cache_keys_by_identity cache \<longrightarrow>
              object_id (handle_web3 contract) = object_id web3 \<and> handle_address contract = a"
      using cache_keys_by_identity_lookup hit by (metis prod.inject)
    ultimately show ?thesis using a hit by (auto simp: insert_absorb)
  next
    assume miss: "map_of cache (object_id web3, a) = None \<and>
             contract = \<lparr>handle_web3 = web3, handle_address = a\<rparr> \<and>
             cache' = ((object_id web3, a), contract) # cache"
    then show ?thesis using a by (auto simp: cache_keys_by_identity_def)
  qed
qed

theorem cache_keyed_by_object_identity_witness:
  "get_or_create_contract demo_checksum [] demo_web3 addr_token_a =
     Inr (\<lparr>handle_web3 = demo_web3, handle_address = addr_token_a\<rparr>,
          [((1, addr_token_a), \<lparr>handle_web3 = demo_web3, handle_address = addr_token_a\<rparr>)]) \<and>
   cache_keys_by_identity [] \<and>
   cache_keys_by_identity
     [((1, addr_token_a), \<lparr>handle_web3 = demo_web3, handle_address = addr_token_a\<rparr>)] \<and>
   map fst [((1 :: nat, addr_token_a), \<lparr>handle_web3 = demo_web3, handle_address = addr_token_a\<rparr>)] =
     [(object_id demo_web3, addr_token_a)]"
proof -
  have g: "get_or_create_contract demo_checksum [] demo_web3 addr_token_a =
     Inr (\<lparr>handle_web3 = demo_web3, handle_address = addr_token_a\<rparr>,
          [((1, addr_token_a), \<lparr>handle_web3 = demo_web3, handle_address = addr_token_a\<rparr>)])"
    by (simp add: get_or_create_contract_def demo_checksum_digits Let_def demo_web3_def)
  have e: "cache_keys_by_identity []" by (simp add: cache_keys_by_identity_def)
  from cache_keyed_by_object_identity[OF g] e g show ?thesis
    by (simp add: demo_checksum_digits demo_web3_def)
qed

subsection \<open>Claim about the route quote decoder\<close>



end
